theory Spec2Isabelle
  imports Main
begin

section \<open>Text: Python strings as lists of code points\<close>

text \<open>
  A Python \<^verbatim>\<open>str\<close> is a sequence of Unicode code points. A code point is a natural
  number, a string a list of them. The literals of \<^verbatim>\<open>ServerHook.py\<close> only use code
  points below 256, so they are written with \<open>u\<close> from an Isabelle string whose
  characters stand for the code points of the same number (\<open>CHR 0xF3\<close> is U+00F3).
\<close>

type_synonym cp = nat
type_synonym ustr = "cp list"

definition u :: "string \<Rightarrow> ustr" where
  "u s = map of_char s"

text \<open>\<^verbatim>\<open>needle in hay\<close> on strings: \<open>needle\<close> occurs as a contiguous piece of \<open>hay\<close>.\<close>

fun py_in :: "ustr \<Rightarrow> ustr \<Rightarrow> bool" where
  "py_in needle [] = (needle = [])"
| "py_in needle (x # xs) = (take (length needle) (x # xs) = needle \<or> py_in needle xs)"

text \<open>\<^verbatim>\<open>s.startswith(p)\<close>.\<close>

definition startswith :: "ustr \<Rightarrow> ustr \<Rightarrow> bool" where
  "startswith s p = (take (length p) s = p)"

text \<open>
  \<^verbatim>\<open>str.isspace\<close> on one code point, the set \<^verbatim>\<open>str.strip()\<close> removes at both ends
  (CPython 3.11, Unicode 14): U+0009..U+000D, U+001C..U+0020, U+0085, U+00A0, U+1680,
  U+2000..U+200A, U+2028, U+2029, U+202F, U+205F, U+3000.
\<close>

definition is_space :: "cp \<Rightarrow> bool" where
  "is_space c = ((9 \<le> c \<and> c \<le> 13) \<or> (28 \<le> c \<and> c \<le> 32) \<or> c = 133 \<or> c = 160
     \<or> c = 5760 \<or> (8192 \<le> c \<and> c \<le> 8202) \<or> c = 8232 \<or> c = 8233 \<or> c = 8239
     \<or> c = 8287 \<or> c = 12288)"

definition strip :: "ustr \<Rightarrow> ustr" where
  "strip s = rev (dropWhile is_space (rev (dropWhile is_space s)))"

text \<open>
  The line boundaries of \<^verbatim>\<open>str.splitlines()\<close>: LF, VT, FF, CR, FS, GS, RS, NEL, LS, PS,
  and CR LF taken as one boundary.
\<close>

definition is_linebreak :: "cp \<Rightarrow> bool" where
  "is_linebreak c = (c = 10 \<or> c = 11 \<or> c = 12 \<or> c = 13 \<or> c = 28 \<or> c = 29 \<or> c = 30
     \<or> c = 133 \<or> c = 8232 \<or> c = 8233)"

text \<open>
  \<open>splitlines_from cur s\<close> reads \<open>s\<close> with \<open>cur\<close> the line collected so far. A boundary
  closes the current line, also an empty one; the end of the text closes it only when
  it is not empty, so that \<^verbatim>\<open>"a\n".splitlines() == ["a"]\<close> and \<^verbatim>\<open>"".splitlines() == []\<close>.
\<close>

fun splitlines_from :: "ustr \<Rightarrow> ustr \<Rightarrow> ustr list" where
  "splitlines_from cur [] = (if cur = [] then [] else [cur])"
| "splitlines_from cur (c # cs) =
     (if c = 13 \<and> cs \<noteq> [] \<and> hd cs = 10 then cur # splitlines_from [] (tl cs)
      else if is_linebreak c then cur # splitlines_from [] cs
      else splitlines_from (cur @ [c]) cs)"

definition splitlines :: "ustr \<Rightarrow> ustr list" where
  "splitlines s = splitlines_from [] s"

text \<open>
  \<^verbatim>\<open>linea.split(":", 1)\<close> for a line that contains a colon (58): the text before the
  first colon and the text after it. The source calls it only behind the test
  \<^verbatim>\<open>":" not in linea\<close>.
\<close>

definition split_colon :: "ustr \<Rightarrow> ustr \<times> ustr" where
  "split_colon linea = (takeWhile (\<lambda>c. c \<noteq> 58) linea, tl (dropWhile (\<lambda>c. c \<noteq> 58) linea))"


section \<open>The Unicode tables of the Python library\<close>

text \<open>
  \<^verbatim>\<open>normalizar_texto\<close> calls three library functions that read the Unicode Character
  Database: \<^verbatim>\<open>str.lower\<close>, \<^verbatim>\<open>unicodedata.normalize("NFD", _)\<close> and
  \<^verbatim>\<open>unicodedata.category(_) == "Mn"\<close>. They are not code of the repository; the
  model takes them as a parameter \<open>U\<close>, so that what is proved for every \<open>U\<close> holds for
  whatever version of the tables the interpreter ships. The fourth field,
  \<^verbatim>\<open>unicodedata.combining\<close>, is the canonical combining class of a code point: the
  source does not call it, NFD orders marks by it, and the statement about the fixed
  points of the normalizer names it.
\<close>

record unicode =
  str_lower :: "ustr \<Rightarrow> ustr"
  normalize_NFD :: "ustr \<Rightarrow> ustr"
  category_Mn :: "cp \<Rightarrow> bool"
  combining_class :: "cp \<Rightarrow> nat"

text \<open>
  \<^verbatim>\<open>
  def normalizar_texto(txt: str) -> str:
      if not txt:
          return ""
      txt = txt.lower()
      txt = "".join(c for c in unicodedata.normalize("NFD", txt)
                    if unicodedata.category(c) != "Mn")
      return txt.strip()
  \<close>
  The argument is optional in the model: \<open>None\<close> is Python's \<^verbatim>\<open>None\<close>, which
  \<^verbatim>\<open>not txt\<close> catches like the empty string.
\<close>

definition normalizar_texto :: "unicode \<Rightarrow> ustr option \<Rightarrow> ustr" where
  "normalizar_texto U txt =
     (case txt of
        None \<Rightarrow> []
      | Some t \<Rightarrow>
          if t = [] then []
          else strip (filter (\<lambda>c. \<not> category_Mn U c) (normalize_NFD U (str_lower U t))))"


subsection \<open>The tables on Latin-1\<close>

text \<open>
  \<open>ucd\<close> holds the entries of the Unicode Character Database (version 14.0, the one of
  CPython 3.11) for the code points U+0000..U+00FF, for the seven combining marks their
  decompositions use (U+0300..U+0303, U+0308, U+030A, U+0327), and for U+034F,
  U+1D165 and U+1D16D. Every other code point has the default properties here (no case
  mapping, no decomposition, combining class 0, not of category Mn), which is not what
  the database says for all of them: statements about \<open>ucd\<close> are restricted to texts
  over the code points listed.
\<close>

text \<open>\<^verbatim>\<open>str.lower\<close> on one code point: A..Z and U+00C0..U+00DE without U+00D7.\<close>

definition lower_cp :: "cp \<Rightarrow> cp" where
  "lower_cp c = (if (65 \<le> c \<and> c \<le> 90) \<or> (192 \<le> c \<and> c \<le> 222 \<and> c \<noteq> 215) then c + 32 else c)"

text \<open>The canonical decompositions: a base letter and one combining mark.\<close>

definition decomposition_table :: "(cp \<times> cp list) list" where
  "decomposition_table =
    [(192, [65, 768]), (193, [65, 769]), (194, [65, 770]), (195, [65, 771]),
     (196, [65, 776]), (197, [65, 778]), (199, [67, 807]), (200, [69, 768]),
     (201, [69, 769]), (202, [69, 770]), (203, [69, 776]), (204, [73, 768]),
     (205, [73, 769]), (206, [73, 770]), (207, [73, 776]), (209, [78, 771]),
     (210, [79, 768]), (211, [79, 769]), (212, [79, 770]), (213, [79, 771]),
     (214, [79, 776]), (217, [85, 768]), (218, [85, 769]), (219, [85, 770]),
     (220, [85, 776]), (221, [89, 769]), (224, [97, 768]), (225, [97, 769]),
     (226, [97, 770]), (227, [97, 771]), (228, [97, 776]), (229, [97, 778]),
     (231, [99, 807]), (232, [101, 768]), (233, [101, 769]), (234, [101, 770]),
     (235, [101, 776]), (236, [105, 768]), (237, [105, 769]), (238, [105, 770]),
     (239, [105, 776]), (241, [110, 771]), (242, [111, 768]), (243, [111, 769]),
     (244, [111, 770]), (245, [111, 771]), (246, [111, 776]), (249, [117, 768]),
     (250, [117, 769]), (251, [117, 770]), (252, [117, 776]), (253, [121, 769]),
     (255, [121, 776])]"

definition decomposition :: "cp \<Rightarrow> cp list" where
  "decomposition c = (case map_of decomposition_table c of Some d \<Rightarrow> d | None \<Rightarrow> [c])"

text \<open>
  \<^verbatim>\<open>unicodedata.combining\<close>, the canonical combining class: 230 for the marks above the
  letter, 202 for the cedilla, 216 for U+1D165 and 226 for U+1D16D (both of category
  Mc), and 0 for U+034F (of category Mn) and for Latin-1.
\<close>

definition combining :: "cp \<Rightarrow> nat" where
  "combining c =
     (if c = 768 \<or> c = 769 \<or> c = 770 \<or> c = 771 \<or> c = 776 \<or> c = 778 then 230
      else if c = 807 then 202
      else if c = 119141 then 216
      else if c = 119149 then 226
      else 0)"

definition is_Mn :: "cp \<Rightarrow> bool" where
  "is_Mn c = (c = 768 \<or> c = 769 \<or> c = 770 \<or> c = 771 \<or> c = 776 \<or> c = 778 \<or> c = 807 \<or> c = 847)"

text \<open>
  The canonical ordering of NFD: a code point of class \<open>k > 0\<close> moves to the left over
  its neighbours of a greater class, and stops at one of class 0 or of a class at most \<open>k\<close>.
  \<open>bubble\<close> works on the reversed prefix already ordered.
\<close>

fun bubble :: "cp \<Rightarrow> cp list \<Rightarrow> cp list" where
  "bubble c [] = [c]"
| "bubble c (p # ps) =
     (if combining c \<noteq> 0 \<and> combining c < combining p then p # bubble c ps else c # p # ps)"

definition canonical_order :: "cp list \<Rightarrow> cp list" where
  "canonical_order s = rev (foldl (\<lambda>acc c. bubble c acc) [] s)"

definition nfd :: "ustr \<Rightarrow> ustr" where
  "nfd s = canonical_order (concat (map decomposition s))"

definition ucd :: unicode where
  "ucd = \<lparr> str_lower = map lower_cp, normalize_NFD = nfd, category_Mn = is_Mn,
           combining_class = combining \<rparr>"


section \<open>The decoded request body\<close>

text \<open>
  The payload is the JSON body decoded by \<^verbatim>\<open>request.get_json\<close>. The handler looks
  at a value in five ways only: its truth value (\<^verbatim>\<open>x or y\<close>, \<^verbatim>\<open>not x\<close>), whether it
  is a \<^verbatim>\<open>dict\<close> or a \<^verbatim>\<open>str\<close>, the items of a dict, equality with a string, and
  \<^verbatim>\<open>str(x)\<close>. A value is modelled by exactly that:
  \<^item> \<open>JStr s\<close>: the string \<open>s\<close>;
  \<^item> \<open>JObj items r\<close>: a dict with these items, whose \<^verbatim>\<open>str()\<close> is \<open>r\<close>;
  \<^item> \<open>JOther t r\<close>: any other value (\<^verbatim>\<open>None\<close>, a boolean, a number, a list), with
    truth value \<open>t\<close> and \<^verbatim>\<open>str()\<close> \<open>r\<close>; \<^verbatim>\<open>None\<close> is \<open>JOther False ''None''\<close> and the
    number 5 is \<open>JOther True ''5''\<close>.
\<close>

datatype json =
    JStr ustr
  | JObj "(ustr \<times> json) list" ustr
  | JOther bool ustr

datatype py_error = AttributeError

definition JNone :: json where
  "JNone = JOther False (u ''None'')"

text \<open>The empty dict \<^verbatim>\<open>{}\<close>.\<close>

definition empty_dict :: json where
  "empty_dict = JObj [] (u ''{}'')"

fun truthy :: "json \<Rightarrow> bool" where
  "truthy (JStr s) = (s \<noteq> [])"
| "truthy (JObj items r) = (items \<noteq> [])"
| "truthy (JOther t r) = t"

text \<open>\<^verbatim>\<open>a or b\<close>.\<close>

definition py_or :: "json \<Rightarrow> json \<Rightarrow> json" where
  "py_or a b = (if truthy a then a else b)"

text \<open>\<^verbatim>\<open>str(x)\<close>.\<close>

fun py_str :: "json \<Rightarrow> ustr" where
  "py_str (JStr s) = s"
| "py_str (JObj items r) = r"
| "py_str (JOther t r) = r"

text \<open>\<^verbatim>\<open>d.get(k)\<close> on a dict: the value, or \<^verbatim>\<open>None\<close> for a missing key.\<close>

definition dict_get :: "(ustr \<times> json) list \<Rightarrow> ustr \<Rightarrow> json" where
  "dict_get items k = (case map_of items k of Some v \<Rightarrow> v | None \<Rightarrow> JNone)"

text \<open>
  \<^verbatim>\<open>x.get(k)\<close> on any value: only a dict has the method; on a string, a number, a
  list or a boolean the call raises \<^verbatim>\<open>AttributeError\<close>.
\<close>

fun py_get :: "json \<Rightarrow> ustr \<Rightarrow> py_error + json" where
  "py_get (JObj items r) k = Inr (dict_get items k)"
| "py_get (JStr s) k = Inl AttributeError"
| "py_get (JOther t r) k = Inl AttributeError"

text \<open>
  \<^verbatim>\<open>
  def get_visitor_id(payload: dict) -> str:
      visitor = payload.get("visitor") or {}
      return str(visitor.get("id") or visitor.get("visitor_id") or visitor.get("email")
                 or visitor.get("phone") or visitor.get("ip") or "anon")
  \<close>
  All five lookups are on \<^verbatim>\<open>visitor\<close>: the first raises when it is not a dict, and
  none raises when it is one.
\<close>

definition get_visitor_id :: "json \<Rightarrow> py_error + ustr" where
  "get_visitor_id payload =
     (case py_get payload (u ''visitor'') of
        Inl e \<Rightarrow> Inl e
      | Inr v \<Rightarrow>
          (case py_or v empty_dict of
             JObj visitor r \<Rightarrow>
               Inr (py_str
                 (py_or (dict_get visitor (u ''id''))
                 (py_or (dict_get visitor (u ''visitor_id''))
                 (py_or (dict_get visitor (u ''email''))
                 (py_or (dict_get visitor (u ''phone''))
                 (py_or (dict_get visitor (u ''ip''))
                        (JStr (u ''anon''))))))))
           | JStr s \<Rightarrow> Inl AttributeError
           | JOther t r \<Rightarrow> Inl AttributeError))"

text \<open>
  \<^verbatim>\<open>
  def extraer_mensaje(payload: dict) -> str:
      msg_obj = payload.get("message")
      if not msg_obj:
          req_obj = payload.get("request") or {}
          msg_obj = req_obj.get("message")
      if isinstance(msg_obj, dict):
          txt = msg_obj.get("text") or msg_obj.get("value") or ""
          return str(txt).strip()
      if isinstance(msg_obj, str):
          return msg_obj.strip()
      return ""
  \<close>
\<close>

definition mensaje_de :: "json \<Rightarrow> ustr" where
  "mensaje_de msg_obj =
     (case msg_obj of
        JObj items r \<Rightarrow>
          strip (py_str (py_or (dict_get items (u ''text''))
                        (py_or (dict_get items (u ''value'')) (JStr []))))
      | JStr s \<Rightarrow> strip s
      | JOther t r \<Rightarrow> [])"

definition extraer_mensaje :: "json \<Rightarrow> py_error + ustr" where
  "extraer_mensaje payload =
     (case py_get payload (u ''message'') of
        Inl e \<Rightarrow> Inl e
      | Inr msg_obj \<Rightarrow>
          if \<not> truthy msg_obj then
            (case py_get payload (u ''request'') of
               Inl e \<Rightarrow> Inl e
             | Inr req \<Rightarrow>
                 (case py_get (py_or req empty_dict) (u ''message'') of
                    Inl e \<Rightarrow> Inl e
                  | Inr msg_obj' \<Rightarrow> Inr (mensaje_de msg_obj')))
          else Inr (mensaje_de msg_obj))"


section \<open>Replies and sessions\<close>

text \<open>The select card of a reply: \<^verbatim>\<open>{"type": ..., "options": [...]}\<close>.\<close>

record input_card =
  card_type :: ustr
  options :: "ustr list"

text \<open>The reply dict: \<^verbatim>\<open>{"action": ..., "replies": [...]}\<close>, with \<^verbatim>\<open>"input"\<close> when given.\<close>

record reply =
  action :: ustr
  replies :: "ustr list"
  input :: "input_card option"

text \<open>The first argument of \<^verbatim>\<open>build_reply\<close>: one string, or a list of strings.\<close>

datatype texts = Text ustr | Texts "ustr list"

text \<open>
  \<^verbatim>\<open>
  def build_reply(texts, input_card=None, action="reply") -> dict:
      if isinstance(texts, str): replies = [texts]
      else: replies = list(texts)
      response = {"action": action, "replies": replies}
      if input_card is not None: response["input"] = input_card
      return response
  \<close>
  No caller passes \<^verbatim>\<open>action\<close>, so it is the default.
\<close>

definition build_reply :: "texts \<Rightarrow> input_card option \<Rightarrow> reply" where
  "build_reply txts inp =
     \<lparr> action = u ''reply'',
       replies = (case txts of Text t \<Rightarrow> [t] | Texts ts \<Rightarrow> ts),
       input = inp \<rparr>"

text \<open>A session: \<^verbatim>\<open>{"state": "...", "data": {...}}\<close>; the store maps visitor ids to sessions.\<close>

record session =
  state :: ustr
  data :: "ustr \<rightharpoonup> ustr"

type_synonym sessions = "ustr \<rightharpoonup> session"

definition menu_card :: input_card where
  "menu_card = \<lparr> card_type = u ''select'',
                 options = [u (''Solicitud Cotizaci'' @ [CHR 0xF3] @ ''n''), u ''Servicio PostVenta''] \<rparr>"


section \<open>The main menu\<close>

definition formulario :: ustr where
  "formulario =
     u (''Perfecto, trabajaremos en su solicitud de cotizaci'' @ [CHR 0xF3] @ ''n.'') @ [10]
   @ u ''Por favor responda copiando y completando este formulario en un solo mensaje:'' @ [10, 10]
   @ u ''Nombre de la empresa:'' @ [10]
   @ u ''Giro:'' @ [10]
   @ u ''RUT:'' @ [10]
   @ u ''Nombre de contacto:'' @ [10]
   @ u ''Correo:'' @ [10]
   @ u (''Tel'' @ [CHR 0xE9] @ ''fono:'') @ [10]
   @ u (''N'' @ [CHR 0xFA] @ ''mero de parte o descripci'' @ [CHR 0xF3] @ ''n detallada:'') @ [10]
   @ u ''Marca:'' @ [10]
   @ u ''Cantidad:'' @ [10]
   @ u (''Direcci'' @ [CHR 0xF3] @ ''n de entrega:'')"

text \<open>
  \<^verbatim>\<open>manejar_menu_principal(session, message_text)\<close>: the session is changed in place
  in the source; the model returns the reply and the session after the call.
\<close>

definition manejar_menu_principal :: "unicode \<Rightarrow> session \<Rightarrow> ustr \<Rightarrow> reply \<times> session" where
  "manejar_menu_principal U session message_text =
     (let texto_norm = normalizar_texto U (Some message_text) in
      if py_in (u ''cotiz'') texto_norm
         \<or> py_in (u ''solicitud cotizacion'') texto_norm
         \<or> texto_norm = u ''cotizacion''
      then (build_reply (Text formulario) None, session\<lparr>state := u ''cotizacion_bloque''\<rparr>)
      else if py_in (u ''postventa'') texto_norm
         \<or> py_in (u ''post venta'') texto_norm
         \<or> py_in (u ''servicio postventa'') texto_norm
      then (build_reply
              (Texts [u ''Perfecto, trabajaremos en su solicitud de postventa.'',
                      u ''Por favor, indique su nombre:''])
              None,
            session\<lparr>state := u ''postventa_nombre''\<rparr>)
      else (build_reply
              (Texts [u (''No he podido identificar la opci'' @ [CHR 0xF3] @ ''n.''),
                      u ''Seleccione una de las siguientes opciones:''])
              (Some menu_card),
            session))"


section \<open>The quote form\<close>

text \<open>
  \<^verbatim>\<open>campos\<close> is a dict with ten keys, fixed by its literal; the loop only assigns to
  these keys. It is modelled as a function from the ten keys to their values, with
  \<open>clave\<close> the key as the string of the source.
\<close>

datatype campo =
  Empresa | Giro | Rut | Contacto | Correo | Telefono | Num_parte | Marca | Cantidad
  | Direccion_entrega

fun clave :: "campo \<Rightarrow> ustr" where
  "clave Empresa = u ''empresa''"
| "clave Giro = u ''giro''"
| "clave Rut = u ''rut''"
| "clave Contacto = u ''contacto''"
| "clave Correo = u ''correo''"
| "clave Telefono = u ''telefono''"
| "clave Num_parte = u ''num_parte''"
| "clave Marca = u ''marca''"
| "clave Cantidad = u ''cantidad''"
| "clave Direccion_entrega = u ''direccion_entrega''"

text \<open>The keys in the order of the dict literal.\<close>

definition todos_los_campos :: "campo list" where
  "todos_los_campos =
     [Empresa, Giro, Rut, Contacto, Correo, Telefono, Num_parte, Marca, Cantidad,
      Direccion_entrega]"

type_synonym campos = "campo \<Rightarrow> ustr"

text \<open>\<^verbatim>\<open>campos = {"empresa": "", "giro": "", ...}\<close>: every field blank.\<close>

definition campos_en_blanco :: campos where
  "campos_en_blanco = (\<lambda>f. [])"

text \<open>
  The \<^verbatim>\<open>if\<close>/\<^verbatim>\<open>elif\<close> chain of the loop body, lines 246 to 267: the key that the
  normalized label selects, or \<open>None\<close> when no branch is taken.
\<close>

definition campo_de_etiqueta :: "ustr \<Rightarrow> campo option" where
  "campo_de_etiqueta etiqueta_norm =
     (if py_in (u ''empresa'') etiqueta_norm then Some Empresa
      else if py_in (u ''giro'') etiqueta_norm then Some Giro
      else if etiqueta_norm = u ''rut'' \<or> etiqueta_norm = u ''r.u.t'' \<or> etiqueta_norm = u ''r u t''
        then Some Rut
      else if py_in (u ''contacto'') etiqueta_norm then Some Contacto
      else if py_in (u ''correo'') etiqueta_norm \<or> py_in (u ''email'') etiqueta_norm
        then Some Correo
      else if py_in (u ''telefono'') etiqueta_norm
           \<or> py_in (u (''tel'' @ [CHR 0xE9] @ ''fono'')) etiqueta_norm
        then Some Telefono
      else if py_in (u ''numero de parte'') etiqueta_norm
           \<or> py_in (u (''n'' @ [CHR 0xFA] @ ''mero de parte'')) etiqueta_norm
           \<or> py_in (u ''descripcion'') etiqueta_norm
        then Some Num_parte
      else if py_in (u ''marca'') etiqueta_norm then Some Marca
      else if py_in (u ''cantidad'') etiqueta_norm then Some Cantidad
      else if py_in (u ''direccion de entrega'') etiqueta_norm
           \<or> py_in (u (''direcci'' @ [CHR 0xF3] @ ''n de entrega'')) etiqueta_norm
        then Some Direccion_entrega
      else None)"

text \<open>
  The body of \<^verbatim>\<open>for linea in lineas\<close>, lines 240 to 267:
  \<^verbatim>\<open>
      if ":" not in linea: continue
      etiqueta, valor = linea.split(":", 1)
      etiqueta_norm = normalizar_texto(etiqueta)
      valor = valor.strip()
      if ... : campos[...] = valor
  \<close>
\<close>

definition procesar_linea :: "unicode \<Rightarrow> campos \<Rightarrow> ustr \<Rightarrow> campos" where
  "procesar_linea U cs linea =
     (if \<not> py_in (u '':'') linea then cs
      else
        (let (etiqueta, valor) = split_colon linea;
             etiqueta_norm = normalizar_texto U (Some etiqueta);
             valor = strip valor
         in case campo_de_etiqueta etiqueta_norm of
              None \<Rightarrow> cs
            | Some f \<Rightarrow> cs(f := valor)))"

text \<open>The loop over the lines, in order.\<close>

fun parsear_lineas :: "unicode \<Rightarrow> campos \<Rightarrow> ustr list \<Rightarrow> campos" where
  "parsear_lineas U cs [] = cs"
| "parsear_lineas U cs (linea # lineas) = parsear_lineas U (procesar_linea U cs linea) lineas"

text \<open>\<^verbatim>\<open>data.update(campos)\<close>: every key of \<^verbatim>\<open>campos\<close> is written into \<^verbatim>\<open>data\<close>.\<close>

definition dict_update :: "(ustr \<rightharpoonup> ustr) \<Rightarrow> campos \<Rightarrow> (ustr \<rightharpoonup> ustr)" where
  "dict_update d cs = fold (\<lambda>f m. m(clave f \<mapsto> cs f)) todos_los_campos d"

definition resumen_cotizacion :: "campos \<Rightarrow> ustr" where
  "resumen_cotizacion cs =
     u (''Resumen de su solicitud de cotizaci'' @ [CHR 0xF3] @ ''n:'') @ [10]
   @ u ''Nombre de la empresa: '' @ cs Empresa @ [10]
   @ u ''Giro: '' @ cs Giro @ [10]
   @ u ''RUT: '' @ cs Rut @ [10]
   @ u ''Nombre de contacto: '' @ cs Contacto @ [10]
   @ u ''Correo: '' @ cs Correo @ [10]
   @ u (''Tel'' @ [CHR 0xE9] @ ''fono: '') @ cs Telefono @ [10]
   @ u (''N'' @ [CHR 0xFA] @ ''mero de parte / descripci'' @ [CHR 0xF3] @ ''n: '') @ cs Num_parte @ [10]
   @ u ''Marca: '' @ cs Marca @ [10]
   @ u ''Cantidad: '' @ cs Cantidad @ [10]
   @ u (''Direcci'' @ [CHR 0xF3] @ ''n de entrega: '') @ cs Direccion_entrega"

text \<open>
  \<^verbatim>\<open>manejar_flujo_cotizacion_bloque(session, message_text)\<close>. \<^verbatim>\<open>message_text or ""\<close>
  is \<^verbatim>\<open>message_text\<close> for every string.
\<close>

definition manejar_flujo_cotizacion_bloque :: "unicode \<Rightarrow> session \<Rightarrow> ustr \<Rightarrow> reply \<times> session" where
  "manejar_flujo_cotizacion_bloque U session message_text =
     (let texto = message_text;
          lineas = splitlines texto;
          cs = parsear_lineas U campos_en_blanco lineas;
          resumen = resumen_cotizacion cs
      in (\<lparr> action = u ''reply'',
            replies =
              [u ''Gracias. Hemos registrado su solicitud con el siguiente detalle:'',
               resumen,
               u (''Un ejecutivo de Selec se pondr'' @ [CHR 0xE1] @ '' en contacto con usted.'')],
            input = None \<rparr>,
          session\<lparr> data := dict_update (data session) cs, state := u ''menu_principal'' \<rparr>))"


section \<open>The postventa flow\<close>

text \<open>
  \<^verbatim>\<open>data.get(k)\<close> inside an f-string: the value, or the text \<^verbatim>\<open>None\<close> for a missing key.
\<close>

definition fmt_get :: "(ustr \<rightharpoonup> ustr) \<Rightarrow> ustr \<Rightarrow> ustr" where
  "fmt_get d k = (case d k of Some v \<Rightarrow> v | None \<Rightarrow> u ''None'')"

definition resumen_postventa :: "(ustr \<rightharpoonup> ustr) \<Rightarrow> ustr" where
  "resumen_postventa d =
     u ''Resumen de su solicitud de postventa:'' @ [10]
   @ u ''Nombre: '' @ fmt_get d (u ''nombre'') @ [10]
   @ u ''RUT: '' @ fmt_get d (u ''rut'') @ [10]
   @ u (''N'' @ [CHR 0xFA] @ ''mero de factura: '') @ fmt_get d (u ''numero_factura'') @ [10]
   @ u ''Detalle: '' @ fmt_get d (u ''detalle'')"

definition manejar_flujo_postventa :: "session \<Rightarrow> ustr \<Rightarrow> reply \<times> session" where
  "manejar_flujo_postventa session message_text =
     (let d = data session; st = state session in
      if st = u ''postventa_nombre'' then
        (build_reply (Text (u ''Indique su RUT:'')) None,
         session\<lparr> data := d(u ''nombre'' \<mapsto> message_text), state := u ''postventa_rut'' \<rparr>)
      else if st = u ''postventa_rut'' then
        (build_reply (Text (u (''Indique el n'' @ [CHR 0xFA] @ ''mero de factura (si lo tiene):''))) None,
         session\<lparr> data := d(u ''rut'' \<mapsto> message_text), state := u ''postventa_numero_factura'' \<rparr>)
      else if st = u ''postventa_numero_factura'' then
        (build_reply (Text (u ''Describa brevemente el problema o solicitud de postventa:'')) None,
         session\<lparr> data := d(u ''numero_factura'' \<mapsto> message_text), state := u ''postventa_detalle'' \<rparr>)
      else if st = u ''postventa_detalle'' then
        (let d' = d(u ''detalle'' \<mapsto> message_text);
             resumen = resumen_postventa d'
         in (\<lparr> action = u ''reply'',
               replies =
                 [u ''Gracias. Hemos registrado su solicitud de postventa con el siguiente detalle:'',
                  resumen,
                  u (''Un ejecutivo se pondr'' @ [CHR 0xE1] @ '' en contacto con usted.'')],
               input = None \<rparr>,
             session\<lparr> data := d', state := u ''menu_principal'' \<rparr>))
      else
        (build_reply
           (Texts [u (''Ha ocurrido un problema con la conversaci'' @ [CHR 0xF3] @ ''n.''),
                   u (''Volvamos al inicio. '' @ [CHR 0xBF] @ ''Desea 'Solicitud Cotizaci''
                      @ [CHR 0xF3] @ ''n' o 'Servicio PostVenta'?'')])
           None,
         session\<lparr> state := u ''menu_principal'' \<rparr>))"


section \<open>The webhook\<close>

text \<open>
  The branch \<^verbatim>\<open>if handler == "message"\<close> of \<^verbatim>\<open>salesiq_webhook\<close>, lines 105 to 127,
  once the text of the message is extracted: the dispatch on the state of the session.
\<close>

definition manejar_mensaje :: "unicode \<Rightarrow> session \<Rightarrow> ustr \<Rightarrow> reply \<times> session" where
  "manejar_mensaje U session message_text =
     (let st = state session in
      if st = u ''menu_principal'' \<or> st = u ''inicio'' then
        manejar_menu_principal U session message_text
      else if st = u ''cotizacion_bloque'' then
        manejar_flujo_cotizacion_bloque U session message_text
      else if startswith st (u ''postventa_'') then
        manejar_flujo_postventa session message_text
      else
        (build_reply
           (Texts [u ''No he comprendido su mensaje.'',
                   u (''Por favor, indique si desea 'Solicitud Cotizaci'' @ [CHR 0xF3]
                      @ ''n' o 'Servicio PostVenta'.'')])
           None,
         session\<lparr> state := u ''menu_principal'' \<rparr>))"

definition bienvenida :: reply where
  "bienvenida =
     build_reply
       (Texts [u ([CHR 0xA1] @ ''Bienvenido! Gracias por contactar con Selec.''),
               u ''Por favor, seleccione una de las siguientes opciones para atender su solicitud.''])
       (Some menu_card)"

definition sesion_nueva :: session where
  "sesion_nueva = \<lparr> state = u ''inicio'', data = Map.empty \<rparr>"

text \<open>
  \<^verbatim>\<open>salesiq_webhook\<close> on a POST request, lines 69 to 130. \<open>body\<close> is what
  \<^verbatim>\<open>request.get_json(force=True, silent=True)\<close> returns: the decoded body, or \<^verbatim>\<open>None\<close>
  (\<open>JNone\<close>) when it is not JSON. The result is the outcome (the reply, or the exception
  raised) and the session store after the call: the store is a global of the module
  and keeps what was written to it before an exception. \<^verbatim>\<open>payload.get("operation")\<close>
  is not used and has the receiver of \<^verbatim>\<open>payload.get("handler")\<close>; the \<^verbatim>\<open>print\<close> calls
  and the GET branch, which answers a constant without reading the store, are left out.
\<close>

definition salesiq_webhook :: "unicode \<Rightarrow> sessions \<Rightarrow> json \<Rightarrow> (py_error + reply) \<times> sessions" where
  "salesiq_webhook U sessions body =
     (let payload = py_or body empty_dict in
      case py_get payload (u ''handler'') of
        Inl e \<Rightarrow> (Inl e, sessions)
      | Inr handler \<Rightarrow>
          (case get_visitor_id payload of
             Inl e \<Rightarrow> (Inl e, sessions)
           | Inr visitor_id \<Rightarrow>
               (let session = (case sessions visitor_id of Some s \<Rightarrow> s | None \<Rightarrow> sesion_nueva);
                    sessions1 = sessions(visitor_id \<mapsto> session)
                in if handler = JStr (u ''trigger'') then
                     (Inr bienvenida,
                      sessions1(visitor_id \<mapsto> session\<lparr> state := u ''menu_principal'' \<rparr>))
                   else if handler = JStr (u ''message'') then
                     (case extraer_mensaje payload of
                        Inl e \<Rightarrow> (Inl e, sessions1)
                      | Inr message_text \<Rightarrow>
                          (let (respuesta, session') = manejar_mensaje U session message_text
                           in (Inr respuesta, sessions1(visitor_id \<mapsto> session'))))
                   else
                     (Inr (build_reply (Text (u ''He recibido su mensaje.'')) None), sessions1))))"


section \<open>Notions used in the statements\<close>

subsection \<open>States, stores and payloads\<close>

text \<open>The seven states that the specification names.\<close>

definition estados_conocidos :: "ustr set" where
  "estados_conocidos =
     {u ''inicio'', u ''menu_principal'', u ''cotizacion_bloque'', u ''postventa_nombre'',
      u ''postventa_rut'', u ''postventa_numero_factura'', u ''postventa_detalle''}"

text \<open>The session store of a process that has served no visitor yet.\<close>

definition almacen_vacio :: sessions where
  "almacen_vacio = Map.empty"

text \<open>\<^verbatim>\<open>isinstance(x, dict)\<close>.\<close>

fun is_dict :: "json \<Rightarrow> bool" where
  "is_dict (JObj items r) = True"
| "is_dict (JStr s) = False"
| "is_dict (JOther t r) = False"

subsection \<open>The match of a label\<close>

text \<open>
  The field that one line of the form assigns: none for a line without a colon, and
  otherwise what the chain of the loop body selects for the normalized label.
\<close>

definition campo_de_linea :: "unicode \<Rightarrow> ustr \<Rightarrow> campo option" where
  "campo_de_linea U linea =
     (if \<not> py_in (u '':'') linea then None
      else campo_de_etiqueta (normalizar_texto U (Some (fst (split_colon linea)))))"

text \<open>
  The match of a label as the specification describes it, to be compared with the chain
  of the source: each field has label keywords, looked for as substrings of the
  normalized label; the labels of the tax id are compared as a whole.
\<close>

fun palabras_clave :: "campo \<Rightarrow> ustr list" where
  "palabras_clave Empresa = [u ''empresa'']"
| "palabras_clave Giro = [u ''giro'']"
| "palabras_clave Rut = [u ''rut'', u ''r.u.t'', u ''r u t'']"
| "palabras_clave Contacto = [u ''contacto'']"
| "palabras_clave Correo = [u ''correo'', u ''email'']"
| "palabras_clave Telefono = [u ''telefono'', u (''tel'' @ [CHR 0xE9] @ ''fono'')]"
| "palabras_clave Num_parte =
     [u ''numero de parte'', u (''n'' @ [CHR 0xFA] @ ''mero de parte''), u ''descripcion'']"
| "palabras_clave Marca = [u ''marca'']"
| "palabras_clave Cantidad = [u ''cantidad'']"
| "palabras_clave Direccion_entrega =
     [u ''direccion de entrega'', u (''direcci'' @ [CHR 0xF3] @ ''n de entrega'')]"

definition coincide :: "ustr \<Rightarrow> campo \<Rightarrow> bool" where
  "coincide etiqueta_norm f =
     (if f = Rut then list_ex (\<lambda>k. etiqueta_norm = k) (palabras_clave f)
      else list_ex (\<lambda>k. py_in k etiqueta_norm) (palabras_clave f))"

subsection \<open>Laws of the Unicode functions\<close>

text \<open>
  What the statements about the normalizer ask of the library functions. Each is a
  property of the Unicode case mappings and of canonical decomposition:
  \<^item> the code points of a lower-cased text are each their own lower case;
  \<^item> a text of code points that are each their own lower case is its own lower case;
  \<^item> decomposing such a text gives such a text;
  \<^item> the code points of a decomposed text are each their own decomposition;
  \<^item> a text of code points that are each their own decomposition and of combining
    class 0 is its own decomposition.
\<close>

definition lower_fixed :: "unicode \<Rightarrow> cp \<Rightarrow> bool" where
  "lower_fixed U c = (str_lower U [c] = [c])"

definition nfd_fixed :: "unicode \<Rightarrow> cp \<Rightarrow> bool" where
  "nfd_fixed U c = (normalize_NFD U [c] = [c])"

definition unicode_laws :: "unicode \<Rightarrow> bool" where
  "unicode_laws U =
     ((\<forall>s. list_all (lower_fixed U) (str_lower U s))
      \<and> (\<forall>t. list_all (lower_fixed U) t \<longrightarrow> str_lower U t = t)
      \<and> (\<forall>t. list_all (lower_fixed U) t \<longrightarrow> list_all (lower_fixed U) (normalize_NFD U t))
      \<and> (\<forall>s. list_all (nfd_fixed U) (normalize_NFD U s))
      \<and> (\<forall>t. list_all (\<lambda>c. nfd_fixed U c \<and> combining_class U c = 0) t \<longrightarrow>
             normalize_NFD U t = t))"

subsection \<open>Code points that the normalizer keeps\<close>

text \<open>
  A code point of Latin-1 that the three steps of the normalizer leave alone: it is its
  own lower case and its own decomposition, of combining class 0 and not of category Mn.
\<close>

definition plain_cp :: "cp \<Rightarrow> bool" where
  "plain_cp c = (c < 256 \<and> lower_cp c = c \<and> decomposition c = [c] \<and> \<not> is_Mn c \<and> combining c = 0)"


section \<open>Properties of the text functions\<close>

lemma py_in_prefix: "py_in n (n @ s)"
  by (cases n) (simp_all, cases s, simp_all)

lemma py_in_append: "py_in n (p @ n @ s)"
  by (induction p) (simp_all add: py_in_prefix)

lemma py_in_singleton: "py_in [c] l \<longleftrightarrow> c \<in> set l"
  by (induction l) auto

text \<open>Evaluation of the normalizer on a concrete text, with the tables \<open>ucd\<close>.\<close>

lemmas ucd_eval =
  normalizar_texto_def ucd_def u_def lower_cp_def nfd_def decomposition_def
  decomposition_table_def canonical_order_def combining_def is_Mn_def strip_def is_space_def


section \<open>The dispatch of a message\<close>

lemma state_menu_principal:
  "state (snd (manejar_menu_principal U s t))
     \<in> {state s, u ''cotizacion_bloque'', u ''postventa_nombre''}"
  by (simp add: manejar_menu_principal_def Let_def)

lemma state_cotizacion:
  "state (snd (manejar_flujo_cotizacion_bloque U s t)) = u ''menu_principal''"
  by (simp add: manejar_flujo_cotizacion_bloque_def Let_def)

lemma state_postventa:
  "state (snd (manejar_flujo_postventa s t)) =
     (if state s = u ''postventa_nombre'' then u ''postventa_rut''
      else if state s = u ''postventa_rut'' then u ''postventa_numero_factura''
      else if state s = u ''postventa_numero_factura'' then u ''postventa_detalle''
      else u ''menu_principal'')"
  by (simp add: manejar_flujo_postventa_def Let_def)

lemma replies_postventa_fallback:
  "state s \<notin> estados_conocidos \<Longrightarrow> replies (fst (manejar_flujo_postventa s t)) \<noteq> []"
  by (simp add: manejar_flujo_postventa_def Let_def estados_conocidos_def build_reply_def)

text \<open>
  C1. In the state \<^verbatim>\<open>menu_principal\<close> or \<^verbatim>\<open>inicio\<close>, a message whose normalized text
  contains \<^verbatim>\<open>cotiz\<close> moves the session to \<^verbatim>\<open>cotizacion_bloque\<close>, and the reply has one
  text, the form. Nothing is asked of the rest of the text: the test comes before the
  one for \<^verbatim>\<open>postventa\<close>, so a text with both takes the quote branch. It holds for every
  Unicode table \<open>U\<close>.
\<close>

theorem menu_cotiz_first:
  "state s = u ''menu_principal'' \<or> state s = u ''inicio'' \<Longrightarrow>
   py_in (u ''cotiz'') (normalizar_texto U (Some message_text)) \<Longrightarrow>
   state (snd (manejar_mensaje U s message_text)) = u ''cotizacion_bloque''
   \<and> replies (fst (manejar_mensaje U s message_text)) = [formulario]"
  by (auto simp: manejar_mensaje_def manejar_menu_principal_def build_reply_def Let_def)

theorem menu_cotiz_first_witness:
  "(state \<lparr>state = u ''menu_principal'', data = Map.empty\<rparr> = u ''menu_principal''
      \<or> state \<lparr>state = u ''menu_principal'', data = Map.empty\<rparr> = u ''inicio'')
   \<and> py_in (u ''cotiz'')
        (normalizar_texto ucd (Some (u (''Cotizaci'' @ [CHR 0xF3] @ ''n y postventa''))))
   \<and> py_in (u ''postventa'')
        (normalizar_texto ucd (Some (u (''Cotizaci'' @ [CHR 0xF3] @ ''n y postventa''))))
   \<and> state (snd (manejar_mensaje ucd \<lparr>state = u ''menu_principal'', data = Map.empty\<rparr>
        (u (''Cotizaci'' @ [CHR 0xF3] @ ''n y postventa'')))) = u ''cotizacion_bloque''
   \<and> replies (fst (manejar_mensaje ucd \<lparr>state = u ''menu_principal'', data = Map.empty\<rparr>
        (u (''Cotizaci'' @ [CHR 0xF3] @ ''n y postventa'')))) = [formulario]"
proof -
  let ?s = "\<lparr>state = u ''menu_principal'', data = Map.empty\<rparr>"
  let ?t = "u (''Cotizaci'' @ [CHR 0xF3] @ ''n y postventa'')"
  have n: "normalizar_texto ucd (Some ?t) = u ''cotizacion y postventa''"
    by (simp add: ucd_eval)
  have h1: "state ?s = u ''menu_principal'' \<or> state ?s = u ''inicio''"
    by simp
  have h2: "py_in (u ''cotiz'') (normalizar_texto ucd (Some ?t))"
    unfolding n by (simp add: u_def)
  have h3: "py_in (u ''postventa'') (normalizar_texto ucd (Some ?t))"
    unfolding n by (simp add: u_def)
  from menu_cotiz_first [OF h1 h2] h1 h2 h3 show ?thesis
    by blast
qed

text \<open>
  C3. After the dispatch of a message the state is one of the seven known states,
  whatever the state before; and from a state outside the seven (a \<^verbatim>\<open>postventa_\<close> one
  included) the state after is \<^verbatim>\<open>menu_principal\<close> and the reply has a text.
\<close>

theorem state_always_known:
  "state (snd (manejar_mensaje U s message_text)) \<in> estados_conocidos
   \<and> (state s \<notin> estados_conocidos \<longrightarrow>
        state (snd (manejar_mensaje U s message_text)) = u ''menu_principal''
        \<and> replies (fst (manejar_mensaje U s message_text)) \<noteq> [])"
proof -
  let ?r = "manejar_mensaje U s message_text"
  consider (menu) "state s = u ''menu_principal'' \<or> state s = u ''inicio''"
    | (cot) "state s = u ''cotizacion_bloque''"
    | (post) "state s \<noteq> u ''menu_principal''" "state s \<noteq> u ''inicio''"
        "state s \<noteq> u ''cotizacion_bloque''" "startswith (state s) (u ''postventa_'')"
    | (other) "state s \<noteq> u ''menu_principal''" "state s \<noteq> u ''inicio''"
        "state s \<noteq> u ''cotizacion_bloque''" "\<not> startswith (state s) (u ''postventa_'')"
    by blast
  then show ?thesis
  proof cases
    case menu
    then have "?r = manejar_menu_principal U s message_text"
      by (auto simp: manejar_mensaje_def Let_def)
    with menu state_menu_principal [of U s message_text] show ?thesis
      by (auto simp: estados_conocidos_def)
  next
    case cot
    then have "?r = manejar_flujo_cotizacion_bloque U s message_text"
      by (simp add: manejar_mensaje_def Let_def u_def)
    with cot show ?thesis
      by (simp add: state_cotizacion estados_conocidos_def)
  next
    case post
    then have "?r = manejar_flujo_postventa s message_text"
      by (simp add: manejar_mensaje_def Let_def)
    then show ?thesis
      using replies_postventa_fallback [of s message_text]
      by (auto simp: state_postventa estados_conocidos_def)
  next
    case other
    then have "?r =
        (build_reply
           (Texts [u ''No he comprendido su mensaje.'',
                   u (''Por favor, indique si desea 'Solicitud Cotizaci'' @ [CHR 0xF3]
                      @ ''n' o 'Servicio PostVenta'.'')])
           None,
         s\<lparr> state := u ''menu_principal'' \<rparr>)"
      by (simp add: manejar_mensaje_def Let_def)
    then show ?thesis
      by (simp add: estados_conocidos_def build_reply_def)
  qed
qed

theorem state_always_known_witness:
  "u ''postventa_xyz'' \<notin> estados_conocidos
   \<and> u ''borrado'' \<notin> estados_conocidos
   \<and> state (snd (manejar_mensaje ucd \<lparr>state = u ''postventa_xyz'', data = Map.empty\<rparr> (u ''hola'')))
       = u ''menu_principal''
   \<and> replies (fst (manejar_mensaje ucd \<lparr>state = u ''postventa_xyz'', data = Map.empty\<rparr> (u ''hola'')))
       \<noteq> []
   \<and> state (snd (manejar_mensaje ucd \<lparr>state = u ''borrado'', data = Map.empty\<rparr> (u ''hola'')))
       = u ''menu_principal''
   \<and> replies (fst (manejar_mensaje ucd \<lparr>state = u ''borrado'', data = Map.empty\<rparr> (u ''hola'')))
       \<noteq> []"
proof -
  have a: "u ''postventa_xyz'' \<notin> estados_conocidos"
    by (simp add: estados_conocidos_def u_def)
  have b: "u ''borrado'' \<notin> estados_conocidos"
    by (simp add: estados_conocidos_def u_def)
  from a b
    state_always_known [of ucd "\<lparr>state = u ''postventa_xyz'', data = Map.empty\<rparr>" "u ''hola''"]
    state_always_known [of ucd "\<lparr>state = u ''borrado'', data = Map.empty\<rparr>" "u ''hola''"]
  show ?thesis
    by simp
qed


section \<open>The postventa flow, step by step\<close>

lemma py_in_inside: "h = p @ n @ s \<Longrightarrow> py_in n h"
  by (simp add: py_in_append)

lemma manejar_mensaje_postventa:
  "state s = u ''postventa_nombre'' \<or> state s = u ''postventa_rut''
   \<or> state s = u ''postventa_numero_factura'' \<or> state s = u ''postventa_detalle'' \<Longrightarrow>
   manejar_mensaje U s t = manejar_flujo_postventa s t"
  by (auto simp: manejar_mensaje_def Let_def startswith_def u_def)

lemma resumen_postventa_contains:
  "k \<in> {u ''nombre'', u ''rut'', u ''numero_factura'', u ''detalle''} \<Longrightarrow>
   d k = Some v \<Longrightarrow> py_in v (resumen_postventa d)"
proof -
  assume k: "k \<in> {u ''nombre'', u ''rut'', u ''numero_factura'', u ''detalle''}"
    and v: "d k = Some v"
  let ?a = "u ''Resumen de su solicitud de postventa:'' @ [10] @ u ''Nombre: ''"
  let ?b = "[10] @ u ''RUT: ''"
  let ?c = "[10] @ u (''N'' @ [CHR 0xFA] @ ''mero de factura: '')"
  let ?e = "[10] @ u ''Detalle: ''"
  let ?n = "fmt_get d (u ''nombre'')"
  let ?r = "fmt_get d (u ''rut'')"
  let ?f = "fmt_get d (u ''numero_factura'')"
  let ?t = "fmt_get d (u ''detalle'')"
  have r: "resumen_postventa d = ?a @ ?n @ ?b @ ?r @ ?c @ ?f @ ?e @ ?t"
    by (simp add: resumen_postventa_def)
  from k consider "k = u ''nombre''" | "k = u ''rut''" | "k = u ''numero_factura''"
    | "k = u ''detalle''"
    by blast
  then show ?thesis
  proof cases
    case 1
    with v have "?n = v" by (simp add: fmt_get_def)
    with r have "resumen_postventa d = ?a @ v @ (?b @ ?r @ ?c @ ?f @ ?e @ ?t)" by simp
    then show ?thesis by (rule py_in_inside)
  next
    case 2
    with v have "?r = v" by (simp add: fmt_get_def)
    with r have "resumen_postventa d = (?a @ ?n @ ?b) @ v @ (?c @ ?f @ ?e @ ?t)" by simp
    then show ?thesis by (rule py_in_inside)
  next
    case 3
    with v have "?f = v" by (simp add: fmt_get_def)
    with r have "resumen_postventa d = (?a @ ?n @ ?b @ ?r @ ?c) @ v @ (?e @ ?t)" by simp
    then show ?thesis by (rule py_in_inside)
  next
    case 4
    with v have "?t = v" by (simp add: fmt_get_def)
    with r have "resumen_postventa d = (?a @ ?n @ ?b @ ?r @ ?c @ ?f @ ?e) @ v @ []" by simp
    then show ?thesis by (rule py_in_inside)
  qed
qed

text \<open>
  C6. The postventa flow. In \<^verbatim>\<open>postventa_nombre\<close>, \<^verbatim>\<open>postventa_rut\<close> and
  \<^verbatim>\<open>postventa_numero_factura\<close> the text of the message, as received, is stored under
  \<^verbatim>\<open>nombre\<close>, \<^verbatim>\<open>rut\<close> and \<^verbatim>\<open>numero_factura\<close>, and the state is the next step. In
  \<^verbatim>\<open>postventa_detalle\<close> it is stored under \<^verbatim>\<open>detalle\<close>, the state is \<^verbatim>\<open>menu_principal\<close>,
  and the second text of the reply is the summary, which contains the text just
  received and each of the three values stored before.
\<close>

theorem postventa_steps:
  "(state s = u ''postventa_nombre'' \<longrightarrow>
      snd (manejar_mensaje U s t)
        = s\<lparr> data := (data s)(u ''nombre'' \<mapsto> t), state := u ''postventa_rut'' \<rparr>)
   \<and> (state s = u ''postventa_rut'' \<longrightarrow>
      snd (manejar_mensaje U s t)
        = s\<lparr> data := (data s)(u ''rut'' \<mapsto> t), state := u ''postventa_numero_factura'' \<rparr>)
   \<and> (state s = u ''postventa_numero_factura'' \<longrightarrow>
      snd (manejar_mensaje U s t)
        = s\<lparr> data := (data s)(u ''numero_factura'' \<mapsto> t), state := u ''postventa_detalle'' \<rparr>)
   \<and> (state s = u ''postventa_detalle'' \<longrightarrow>
      snd (manejar_mensaje U s t)
        = s\<lparr> data := (data s)(u ''detalle'' \<mapsto> t), state := u ''menu_principal'' \<rparr>
      \<and> replies (fst (manejar_mensaje U s t))
        = [u ''Gracias. Hemos registrado su solicitud de postventa con el siguiente detalle:'',
           resumen_postventa ((data s)(u ''detalle'' \<mapsto> t)),
           u (''Un ejecutivo se pondr'' @ [CHR 0xE1] @ '' en contacto con usted.'')]
      \<and> py_in t (resumen_postventa ((data s)(u ''detalle'' \<mapsto> t)))
      \<and> (\<forall>k\<in>{u ''nombre'', u ''rut'', u ''numero_factura''}. \<forall>v. data s k = Some v \<longrightarrow>
            py_in v (resumen_postventa ((data s)(u ''detalle'' \<mapsto> t)))))"
proof (intro conjI impI)
  assume "state s = u ''postventa_nombre''"
  then show "snd (manejar_mensaje U s t)
        = s\<lparr> data := (data s)(u ''nombre'' \<mapsto> t), state := u ''postventa_rut'' \<rparr>"
    by (simp add: manejar_mensaje_postventa) (simp add: manejar_flujo_postventa_def Let_def)
next
  assume "state s = u ''postventa_rut''"
  then show "snd (manejar_mensaje U s t)
        = s\<lparr> data := (data s)(u ''rut'' \<mapsto> t), state := u ''postventa_numero_factura'' \<rparr>"
    by (simp add: manejar_mensaje_postventa) (simp add: manejar_flujo_postventa_def Let_def u_def)
next
  assume "state s = u ''postventa_numero_factura''"
  then show "snd (manejar_mensaje U s t)
        = s\<lparr> data := (data s)(u ''numero_factura'' \<mapsto> t), state := u ''postventa_detalle'' \<rparr>"
    by (simp add: manejar_mensaje_postventa) (simp add: manejar_flujo_postventa_def Let_def u_def)
next
  assume "state s = u ''postventa_detalle''"
  then show "snd (manejar_mensaje U s t)
        = s\<lparr> data := (data s)(u ''detalle'' \<mapsto> t), state := u ''menu_principal'' \<rparr>"
    by (simp add: manejar_mensaje_postventa) (simp add: manejar_flujo_postventa_def Let_def u_def)
next
  assume "state s = u ''postventa_detalle''"
  then show "replies (fst (manejar_mensaje U s t))
        = [u ''Gracias. Hemos registrado su solicitud de postventa con el siguiente detalle:'',
           resumen_postventa ((data s)(u ''detalle'' \<mapsto> t)),
           u (''Un ejecutivo se pondr'' @ [CHR 0xE1] @ '' en contacto con usted.'')]"
    by (simp add: manejar_mensaje_postventa) (simp add: manejar_flujo_postventa_def Let_def u_def)
next
  show "py_in t (resumen_postventa ((data s)(u ''detalle'' \<mapsto> t)))"
    by (rule resumen_postventa_contains [of "u ''detalle''"]) simp_all
next
  show "\<forall>k\<in>{u ''nombre'', u ''rut'', u ''numero_factura''}. \<forall>v. data s k = Some v \<longrightarrow>
            py_in v (resumen_postventa ((data s)(u ''detalle'' \<mapsto> t)))"
  proof (intro ballI allI impI)
    fix k v
    assume k: "k \<in> {u ''nombre'', u ''rut'', u ''numero_factura''}" and v: "data s k = Some v"
    from k have "k \<noteq> u ''detalle''" by (auto simp: u_def)
    with v have "((data s)(u ''detalle'' \<mapsto> t)) k = Some v" by simp
    moreover from k have "k \<in> {u ''nombre'', u ''rut'', u ''numero_factura'', u ''detalle''}"
      by blast
    ultimately show "py_in v (resumen_postventa ((data s)(u ''detalle'' \<mapsto> t)))"
      by (rule resumen_postventa_contains [rotated])
  qed
qed

theorem postventa_steps_witness:
  "state \<lparr>state = u ''postventa_nombre'', data = Map.empty\<rparr> = u ''postventa_nombre''
   \<and> snd (manejar_mensaje ucd \<lparr>state = u ''postventa_nombre'', data = Map.empty\<rparr> (u '' Ana Soto''))
       = \<lparr>state = u ''postventa_rut'', data = [u ''nombre'' \<mapsto> u '' Ana Soto'']\<rparr>
   \<and> snd (manejar_mensaje ucd \<lparr>state = u ''postventa_rut'', data = Map.empty\<rparr> (u ''1-9''))
       = \<lparr>state = u ''postventa_numero_factura'', data = [u ''rut'' \<mapsto> u ''1-9'']\<rparr>
   \<and> snd (manejar_mensaje ucd \<lparr>state = u ''postventa_numero_factura'', data = Map.empty\<rparr> (u ''F7''))
       = \<lparr>state = u ''postventa_detalle'', data = [u ''numero_factura'' \<mapsto> u ''F7'']\<rparr>
   \<and> state \<lparr>state = u ''postventa_detalle'',
             data = [u ''nombre'' \<mapsto> u '' Ana Soto'', u ''rut'' \<mapsto> u ''1-9'',
                     u ''numero_factura'' \<mapsto> u ''F7'']\<rparr> = u ''postventa_detalle''
   \<and> [u ''nombre'' \<mapsto> u '' Ana Soto'', u ''rut'' \<mapsto> u ''1-9'', u ''numero_factura'' \<mapsto> u ''F7'']
        (u ''rut'') = Some (u ''1-9'')
   \<and> state (snd (manejar_mensaje ucd
        \<lparr>state = u ''postventa_detalle'',
          data = [u ''nombre'' \<mapsto> u '' Ana Soto'', u ''rut'' \<mapsto> u ''1-9'',
                  u ''numero_factura'' \<mapsto> u ''F7'']\<rparr>
        (u ''Equipo no enciende''))) = u ''menu_principal''
   \<and> py_in (u ''1-9'')
        (resumen_postventa
          ([u ''nombre'' \<mapsto> u '' Ana Soto'', u ''rut'' \<mapsto> u ''1-9'', u ''numero_factura'' \<mapsto> u ''F7'',
            u ''detalle'' \<mapsto> u ''Equipo no enciende'']))
   \<and> py_in (u ''Equipo no enciende'')
        (resumen_postventa
          ([u ''nombre'' \<mapsto> u '' Ana Soto'', u ''rut'' \<mapsto> u ''1-9'', u ''numero_factura'' \<mapsto> u ''F7'',
            u ''detalle'' \<mapsto> u ''Equipo no enciende'']))"
proof -
  let ?d = "[u ''nombre'' \<mapsto> u '' Ana Soto'', u ''rut'' \<mapsto> u ''1-9'', u ''numero_factura'' \<mapsto> u ''F7'']"
  let ?s4 = "\<lparr>state = u ''postventa_detalle'', data = ?d\<rparr>"
  have k: "u ''rut'' \<in> {u ''nombre'', u ''rut'', u ''numero_factura''}"
    by simp
  have r: "?d (u ''rut'') = Some (u ''1-9'')"
    by (simp add: u_def)
  have a: "state ?s4 = u ''postventa_detalle''"
    by simp
  note n1 = postventa_steps [of "\<lparr>state = u ''postventa_nombre'', data = Map.empty\<rparr>" ucd "u '' Ana Soto''"]
  note n2 = postventa_steps [of "\<lparr>state = u ''postventa_rut'', data = Map.empty\<rparr>" ucd "u ''1-9''"]
  note n3 = postventa_steps [of "\<lparr>state = u ''postventa_numero_factura'', data = Map.empty\<rparr>" ucd "u ''F7''"]
  note n4 = postventa_steps [of ?s4 ucd "u ''Equipo no enciende''"]
  have c1: "snd (manejar_mensaje ucd \<lparr>state = u ''postventa_nombre'', data = Map.empty\<rparr> (u '' Ana Soto''))
       = \<lparr>state = u ''postventa_rut'', data = [u ''nombre'' \<mapsto> u '' Ana Soto'']\<rparr>"
    using n1 by simp
  have c2: "snd (manejar_mensaje ucd \<lparr>state = u ''postventa_rut'', data = Map.empty\<rparr> (u ''1-9''))
       = \<lparr>state = u ''postventa_numero_factura'', data = [u ''rut'' \<mapsto> u ''1-9'']\<rparr>"
    using n2 by simp
  have c3: "snd (manejar_mensaje ucd \<lparr>state = u ''postventa_numero_factura'', data = Map.empty\<rparr> (u ''F7''))
       = \<lparr>state = u ''postventa_detalle'', data = [u ''numero_factura'' \<mapsto> u ''F7'']\<rparr>"
    using n3 by simp
  from n4 a have c4: "state (snd (manejar_mensaje ucd ?s4 (u ''Equipo no enciende''))) = u ''menu_principal''"
    by simp
  from n4 a have c5: "py_in (u ''Equipo no enciende'')
        (resumen_postventa (?d(u ''detalle'' \<mapsto> u ''Equipo no enciende'')))"
    by simp
  from n4 a have "\<forall>k\<in>{u ''nombre'', u ''rut'', u ''numero_factura''}. \<forall>v. ?d k = Some v \<longrightarrow>
            py_in v (resumen_postventa (?d(u ''detalle'' \<mapsto> u ''Equipo no enciende'')))"
    by simp
  with k r have c6: "py_in (u ''1-9'') (resumen_postventa (?d(u ''detalle'' \<mapsto> u ''Equipo no enciende'')))"
    by blast
  from c1 c2 c3 c4 c5 c6 r show ?thesis
    by simp
qed


section \<open>The webhook and the session store\<close>

lemma webhook_trigger:
  assumes "py_get (py_or body empty_dict) (u ''handler'') = Inr (JStr (u ''trigger''))"
    and "get_visitor_id (py_or body empty_dict) = Inr vid"
  shows "salesiq_webhook U ss body =
           (Inr bienvenida,
            ss(vid \<mapsto> (case ss vid of Some s \<Rightarrow> s | None \<Rightarrow> sesion_nueva)
                        \<lparr> state := u ''menu_principal'' \<rparr>))"
  using assms by (simp add: salesiq_webhook_def Let_def)

lemma webhook_other:
  assumes "py_get (py_or body empty_dict) (u ''handler'') = Inr h"
    and "h \<noteq> JStr (u ''trigger'')" and "h \<noteq> JStr (u ''message'')"
    and "get_visitor_id (py_or body empty_dict) = Inr vid"
  shows "salesiq_webhook U ss body =
           (Inr (build_reply (Text (u ''He recibido su mensaje.'')) None),
            ss(vid \<mapsto> (case ss vid of Some s \<Rightarrow> s | None \<Rightarrow> sesion_nueva)))"
  using assms by (simp add: salesiq_webhook_def Let_def)

lemma webhook_message:
  assumes "py_get (py_or body empty_dict) (u ''handler'') = Inr (JStr (u ''message''))"
    and "get_visitor_id (py_or body empty_dict) = Inr vid"
    and "extraer_mensaje (py_or body empty_dict) = Inr t"
  shows "salesiq_webhook U ss body =
           (Inr (fst (manejar_mensaje U (case ss vid of Some s \<Rightarrow> s | None \<Rightarrow> sesion_nueva) t)),
            ss(vid \<mapsto> snd (manejar_mensaje U (case ss vid of Some s \<Rightarrow> s | None \<Rightarrow> sesion_nueva) t)))"
  using assms by (simp add: salesiq_webhook_def Let_def u_def split: prod.splits)

text \<open>
  C5. A \<^verbatim>\<open>trigger\<close> event sets the state of the visitor's session to \<^verbatim>\<open>menu_principal\<close>
  whatever the store held, and the reply is the greeting with the select card of the two
  options. A second \<^verbatim>\<open>trigger\<close> of the same visitor, right after, gives the same reply
  and the same state.
\<close>

theorem trigger_resets:
  assumes "py_get (py_or body1 empty_dict) (u ''handler'') = Inr (JStr (u ''trigger''))"
    and "get_visitor_id (py_or body1 empty_dict) = Inr vid"
    and "py_get (py_or body2 empty_dict) (u ''handler'') = Inr (JStr (u ''trigger''))"
    and "get_visitor_id (py_or body2 empty_dict) = Inr vid"
  shows "fst (salesiq_webhook U ss body1) = Inr bienvenida
    \<and> map_option state (snd (salesiq_webhook U ss body1) vid) = Some (u ''menu_principal'')
    \<and> fst (salesiq_webhook U (snd (salesiq_webhook U ss body1)) body2) = Inr bienvenida
    \<and> map_option state (snd (salesiq_webhook U (snd (salesiq_webhook U ss body1)) body2) vid)
        = Some (u ''menu_principal'')
    \<and> replies bienvenida =
        [u ([CHR 0xA1] @ ''Bienvenido! Gracias por contactar con Selec.''),
         u ''Por favor, seleccione una de las siguientes opciones para atender su solicitud.'']
    \<and> input bienvenida =
        Some \<lparr> card_type = u ''select'',
               options = [u (''Solicitud Cotizaci'' @ [CHR 0xF3] @ ''n''), u ''Servicio PostVenta''] \<rparr>"
proof -
  have 1: "salesiq_webhook U ss body1 =
      (Inr bienvenida,
       ss(vid \<mapsto> (case ss vid of Some s \<Rightarrow> s | None \<Rightarrow> sesion_nueva)\<lparr> state := u ''menu_principal'' \<rparr>))"
    using assms(1,2) by (rule webhook_trigger)
  have 2: "\<And>ss'. salesiq_webhook U ss' body2 =
      (Inr bienvenida,
       ss'(vid \<mapsto> (case ss' vid of Some s \<Rightarrow> s | None \<Rightarrow> sesion_nueva)\<lparr> state := u ''menu_principal'' \<rparr>))"
    using assms(3,4) by (rule webhook_trigger)
  show ?thesis
    by (simp add: 1 2) (simp add: bienvenida_def build_reply_def menu_card_def)
qed

text \<open>
  C4, as amended. An event whose handler is neither \<^verbatim>\<open>trigger\<close> nor \<^verbatim>\<open>message\<close> is
  answered with the acknowledgement. Every session of the store is left as it was; but
  \<^verbatim>\<open>sessions.setdefault\<close> runs before the handler is looked at, so a visitor without
  a session gets a new one, in the state \<^verbatim>\<open>inicio\<close> with no data.
\<close>

theorem other_handler_frame:
  assumes "py_get (py_or body empty_dict) (u ''handler'') = Inr h"
    and "h \<noteq> JStr (u ''trigger'')" and "h \<noteq> JStr (u ''message'')"
    and "get_visitor_id (py_or body empty_dict) = Inr vid"
  shows "fst (salesiq_webhook U ss body)
           = Inr (build_reply (Text (u ''He recibido su mensaje.'')) None)
    \<and> replies (build_reply (Text (u ''He recibido su mensaje.'')) None)
           = [u ''He recibido su mensaje.'']
    \<and> (\<forall>k s. ss k = Some s \<longrightarrow> snd (salesiq_webhook U ss body) k = Some s)
    \<and> (ss vid \<noteq> None \<longrightarrow> snd (salesiq_webhook U ss body) = ss)
    \<and> (ss vid = None \<longrightarrow> snd (salesiq_webhook U ss body) = ss(vid \<mapsto> sesion_nueva))"
proof -
  have w: "salesiq_webhook U ss body =
           (Inr (build_reply (Text (u ''He recibido su mensaje.'')) None),
            ss(vid \<mapsto> (case ss vid of Some s \<Rightarrow> s | None \<Rightarrow> sesion_nueva)))"
    using assms by (rule webhook_other)
  show ?thesis
    unfolding w by (auto simp: build_reply_def fun_upd_idem_iff)
qed

lemma context_eval:
  "salesiq_webhook ucd almacen_vacio
       (JObj [(u ''handler'', JStr (u ''context''))] (u ''{'handler': 'context'}''))
   = (Inr (build_reply (Text (u ''He recibido su mensaje.'')) None),
      almacen_vacio(u ''anon'' \<mapsto> sesion_nueva))"
  by (simp add: salesiq_webhook_def Let_def py_or_def empty_dict_def dict_get_def
      get_visitor_id_def JNone_def almacen_vacio_def) (simp add: u_def)

text \<open>
  C4, as stated, fails: a \<^verbatim>\<open>context\<close> event of an unknown visitor changes the store.
  Before, the store has no session for \<^verbatim>\<open>anon\<close>; after, it has one.
\<close>

theorem other_handler_creates_session:
  "almacen_vacio (u ''anon'') = None
   \<and> snd (salesiq_webhook ucd almacen_vacio
       (JObj [(u ''handler'', JStr (u ''context''))] (u ''{'handler': 'context'}''))) (u ''anon'')
     = Some sesion_nueva"
  by (simp add: context_eval) (simp add: almacen_vacio_def)

text \<open>
  C9. The body \<^verbatim>\<open>{"handler": "message", "visitor": "abc"}\<close>: \<^verbatim>\<open>payload.get("visitor") or {}\<close>
  is the string \<^verbatim>\<open>"abc"\<close>, and \<^verbatim>\<open>visitor.get("id")\<close> raises \<^verbatim>\<open>AttributeError\<close>. No reply
  is returned.
\<close>

theorem visitor_not_dict_raises:
  "salesiq_webhook U ss
     (JObj [(u ''handler'', JStr (u ''message'')), (u ''visitor'', JStr (u ''abc''))] r)
   = (Inl AttributeError, ss)"
  by (simp add: salesiq_webhook_def Let_def py_or_def empty_dict_def dict_get_def
      get_visitor_id_def) (simp add: u_def)

text \<open>
  The rest of the webhook does not raise: for a body that is a JSON object, or one that
  \<^verbatim>\<open>or {}\<close> replaces (\<^verbatim>\<open>None\<close>, an empty value), whose \<^verbatim>\<open>visitor\<close> is an object or
  falsy, and whose \<^verbatim>\<open>request\<close> is an object or falsy when \<^verbatim>\<open>message\<close> is falsy, a reply
  is returned, with at least one text.
\<close>

lemma replies_manejar_mensaje: "replies (fst (manejar_mensaje U s t)) \<noteq> []"
proof -
  have 1: "replies (fst (manejar_menu_principal U s t)) \<noteq> []"
    by (simp add: manejar_menu_principal_def build_reply_def Let_def)
  have 2: "replies (fst (manejar_flujo_cotizacion_bloque U s t)) \<noteq> []"
    by (simp add: manejar_flujo_cotizacion_bloque_def Let_def)
  have 3: "replies (fst (manejar_flujo_postventa s t)) \<noteq> []"
    by (simp add: manejar_flujo_postventa_def build_reply_def Let_def)
  show ?thesis
    using 1 2 3 by (simp add: manejar_mensaje_def build_reply_def Let_def)
qed

lemma get_visitor_id_returns:
  assumes "\<not> truthy (dict_get items (u ''visitor'')) \<or> is_dict (dict_get items (u ''visitor''))"
  shows "\<exists>vid. get_visitor_id (JObj items r) = Inr vid"
proof (cases "truthy (dict_get items (u ''visitor''))")
  case False
  then show ?thesis
    by (simp add: get_visitor_id_def py_or_def empty_dict_def)
next
  case True
  with assms obtain its r' where "dict_get items (u ''visitor'') = JObj its r'"
    by (cases "dict_get items (u ''visitor'')") auto
  with True show ?thesis
    by (simp add: get_visitor_id_def py_or_def)
qed

lemma extraer_mensaje_returns:
  assumes "truthy (dict_get items (u ''message''))
    \<or> \<not> truthy (dict_get items (u ''request''))
    \<or> is_dict (dict_get items (u ''request''))"
  shows "\<exists>t. extraer_mensaje (JObj items r) = Inr t"
proof (cases "truthy (dict_get items (u ''message''))")
  case True
  then show ?thesis by (simp add: extraer_mensaje_def)
next
  case False
  show ?thesis
  proof (cases "truthy (dict_get items (u ''request''))")
    case False
    with \<open>\<not> truthy (dict_get items (u ''message''))\<close> show ?thesis
      by (simp add: extraer_mensaje_def py_or_def empty_dict_def)
  next
    case True
    with assms \<open>\<not> truthy (dict_get items (u ''message''))\<close>
    obtain its r' where "dict_get items (u ''request'') = JObj its r'"
      by (cases "dict_get items (u ''request'')") auto
    with True \<open>\<not> truthy (dict_get items (u ''message''))\<close> show ?thesis
      by (simp add: extraer_mensaje_def py_or_def)
  qed
qed

lemma webhook_returns_reply:
  assumes "py_or body empty_dict = JObj items r"
    and "\<not> truthy (dict_get items (u ''visitor'')) \<or> is_dict (dict_get items (u ''visitor''))"
    and "truthy (dict_get items (u ''message''))
      \<or> \<not> truthy (dict_get items (u ''request''))
      \<or> is_dict (dict_get items (u ''request''))"
  shows "\<exists>respuesta. fst (salesiq_webhook U ss body) = Inr respuesta \<and> replies respuesta \<noteq> []"
proof -
  from assms(2) obtain vid where v: "get_visitor_id (JObj items r) = Inr vid"
    using get_visitor_id_returns by blast
  from assms(3) obtain t where t: "extraer_mensaje (JObj items r) = Inr t"
    using extraer_mensaje_returns by blast
  have b: "replies bienvenida \<noteq> []"
    by (simp add: bienvenida_def build_reply_def)
  show ?thesis
    using assms(1) v t b replies_manejar_mensaje
    by (simp add: salesiq_webhook_def Let_def build_reply_def split: prod.splits)
      (metis fst_conv)
qed

text \<open>Evaluation of the lookups in a concrete payload.\<close>

lemmas payload_eval =
  py_or_def empty_dict_def dict_get_def get_visitor_id_def JNone_def

theorem trigger_resets_witness:
  "py_get (py_or (JObj [(u ''handler'', JStr (u ''trigger''))] (u ''{'handler': 'trigger'}'')) empty_dict)
       (u ''handler'') = Inr (JStr (u ''trigger''))
   \<and> get_visitor_id (py_or (JObj [(u ''handler'', JStr (u ''trigger''))] (u ''{'handler': 'trigger'}'')) empty_dict)
       = Inr (u ''anon'')
   \<and> fst (salesiq_webhook ucd almacen_vacio
        (JObj [(u ''handler'', JStr (u ''trigger''))] (u ''{'handler': 'trigger'}''))) = Inr bienvenida
   \<and> map_option state (snd (salesiq_webhook ucd almacen_vacio
        (JObj [(u ''handler'', JStr (u ''trigger''))] (u ''{'handler': 'trigger'}''))) (u ''anon''))
       = Some (u ''menu_principal'')
   \<and> fst (salesiq_webhook ucd
        (snd (salesiq_webhook ucd almacen_vacio
           (JObj [(u ''handler'', JStr (u ''trigger''))] (u ''{'handler': 'trigger'}''))))
        (JObj [(u ''handler'', JStr (u ''trigger''))] (u ''{'handler': 'trigger'}''))) = Inr bienvenida"
proof -
  let ?b = "JObj [(u ''handler'', JStr (u ''trigger''))] (u ''{'handler': 'trigger'}'')"
  have h: "py_get (py_or ?b empty_dict) (u ''handler'') = Inr (JStr (u ''trigger''))"
    by (simp add: payload_eval)
  have v: "get_visitor_id (py_or ?b empty_dict) = Inr (u ''anon'')"
    by (simp add: payload_eval) (simp add: u_def)
  from trigger_resets [OF h v h v, of ucd almacen_vacio] h v show ?thesis
    by blast
qed

theorem other_handler_frame_witness:
  "py_get (py_or (JObj [(u ''handler'', JStr (u ''context''))] (u ''{'handler': 'context'}'')) empty_dict)
       (u ''handler'') = Inr (JStr (u ''context''))
   \<and> JStr (u ''context'') \<noteq> JStr (u ''trigger'')
   \<and> JStr (u ''context'') \<noteq> JStr (u ''message'')
   \<and> get_visitor_id (py_or (JObj [(u ''handler'', JStr (u ''context''))] (u ''{'handler': 'context'}'')) empty_dict)
       = Inr (u ''anon'')
   \<and> (almacen_vacio(u ''otro'' \<mapsto> sesion_nueva)) (u ''otro'') = Some sesion_nueva
   \<and> (almacen_vacio(u ''otro'' \<mapsto> sesion_nueva)) (u ''anon'') = None
   \<and> (almacen_vacio(u ''anon'' \<mapsto> sesion_nueva)) (u ''anon'') \<noteq> None
   \<and> snd (salesiq_webhook ucd (almacen_vacio(u ''otro'' \<mapsto> sesion_nueva))
        (JObj [(u ''handler'', JStr (u ''context''))] (u ''{'handler': 'context'}''))) (u ''otro'')
       = Some sesion_nueva
   \<and> snd (salesiq_webhook ucd (almacen_vacio(u ''otro'' \<mapsto> sesion_nueva))
        (JObj [(u ''handler'', JStr (u ''context''))] (u ''{'handler': 'context'}'')))
       = (almacen_vacio(u ''otro'' \<mapsto> sesion_nueva))(u ''anon'' \<mapsto> sesion_nueva)
   \<and> snd (salesiq_webhook ucd (almacen_vacio(u ''anon'' \<mapsto> sesion_nueva))
        (JObj [(u ''handler'', JStr (u ''context''))] (u ''{'handler': 'context'}'')))
       = almacen_vacio(u ''anon'' \<mapsto> sesion_nueva)"
proof -
  let ?b = "JObj [(u ''handler'', JStr (u ''context''))] (u ''{'handler': 'context'}'')"
  have h: "py_get (py_or ?b empty_dict) (u ''handler'') = Inr (JStr (u ''context''))"
    by (simp add: payload_eval)
  have n1: "JStr (u ''context'') \<noteq> JStr (u ''trigger'')"
    by (simp add: u_def)
  have n2: "JStr (u ''context'') \<noteq> JStr (u ''message'')"
    by (simp add: u_def)
  have v: "get_visitor_id (py_or ?b empty_dict) = Inr (u ''anon'')"
    by (simp add: payload_eval) (simp add: u_def)
  have s1: "(almacen_vacio(u ''otro'' \<mapsto> sesion_nueva)) (u ''otro'') = Some sesion_nueva"
    by simp
  have s2: "(almacen_vacio(u ''otro'' \<mapsto> sesion_nueva)) (u ''anon'') = None"
    by (simp add: almacen_vacio_def u_def)
  have s3: "(almacen_vacio(u ''anon'' \<mapsto> sesion_nueva)) (u ''anon'') \<noteq> None"
    by simp
  from other_handler_frame [OF h n1 n2 v, of ucd "almacen_vacio(u ''otro'' \<mapsto> sesion_nueva)"]
    other_handler_frame [OF h n1 n2 v, of ucd "almacen_vacio(u ''anon'' \<mapsto> sesion_nueva)"]
    h n1 n2 v s1 s2 s3
  show ?thesis
    by blast
qed


section \<open>The parser of the quote form\<close>

lemma colon_u: "u '':'' = [58]"
  by (simp add: u_def)

lemma split_colon_first:
  "58 \<notin> set etiqueta \<Longrightarrow> split_colon (etiqueta @ 58 # valor) = (etiqueta, valor)"
  by (induction etiqueta) (simp_all add: split_colon_def)

lemma campo_de_etiqueta_find:
  "campo_de_etiqueta e = find (coincide e) todos_los_campos"
  by (simp add: campo_de_etiqueta_def todos_los_campos_def coincide_def)

lemma procesar_linea_campo:
  "procesar_linea U cs linea =
     (case campo_de_linea U linea of
        None \<Rightarrow> cs
      | Some f \<Rightarrow> cs(f := strip (snd (split_colon linea))))"
  by (simp add: procesar_linea_def campo_de_linea_def Let_def case_prod_beta)

text \<open>
  C2, as amended. A line without a colon leaves every field as it was. A line with a
  colon is split at the first one; the label is normalized, the value trimmed, and the
  value is assigned to the first field, in the order of the form (company, line of
  business, tax id, contact, email, phone, part number, brand, quantity, delivery
  address), that the normalized label matches: one of the keywords of the field occurs
  in it, or, for the tax id, it is one of \<^verbatim>\<open>rut\<close>, \<^verbatim>\<open>r.u.t\<close>, \<^verbatim>\<open>r u t\<close>. The other fields
  are left as they were, and so is every field when no field matches.
\<close>

theorem procesar_linea_first_match:
  "(58 \<notin> set linea \<longrightarrow> procesar_linea U cs linea = cs)
   \<and> (linea = etiqueta @ 58 # valor \<and> 58 \<notin> set etiqueta \<longrightarrow>
        procesar_linea U cs linea =
          (case find (coincide (normalizar_texto U (Some etiqueta))) todos_los_campos of
             None \<Rightarrow> cs
           | Some f \<Rightarrow> cs(f := strip valor)))"
proof (intro conjI impI)
  assume "58 \<notin> set linea"
  then show "procesar_linea U cs linea = cs"
    by (simp add: procesar_linea_def colon_u py_in_singleton)
next
  assume a: "linea = etiqueta @ 58 # valor \<and> 58 \<notin> set etiqueta"
  then have s: "split_colon linea = (etiqueta, valor)"
    by (simp add: split_colon_first)
  from a have "py_in (u '':'') linea"
    by (simp add: colon_u py_in_singleton)
  with s show "procesar_linea U cs linea =
          (case find (coincide (normalizar_texto U (Some etiqueta))) todos_los_campos of
             None \<Rightarrow> cs
           | Some f \<Rightarrow> cs(f := strip valor))"
    by (simp add: procesar_linea_def campo_de_etiqueta_find)
qed

lemma parsear_lineas_append:
  "parsear_lineas U cs (xs @ ys) = parsear_lineas U (parsear_lineas U cs xs) ys"
  by (induction xs arbitrary: cs) simp_all

lemma parsear_lineas_untouched:
  "\<forall>l\<in>set ls. campo_de_linea U l \<noteq> Some f \<Longrightarrow> parsear_lineas U cs ls f = cs f"
proof (induction ls arbitrary: cs)
  case Nil
  then show ?case by simp
next
  case (Cons l ls)
  then have "procesar_linea U cs l f = cs f"
    by (auto simp: procesar_linea_campo split: option.splits)
  with Cons show ?case by simp
qed

lemma parsear_lineas_last:
  assumes "campo_de_linea U linea = Some f"
    and "\<forall>l\<in>set despues. campo_de_linea U l \<noteq> Some f"
  shows "parsear_lineas U cs (antes @ linea # despues) f = strip (snd (split_colon linea))"
proof -
  have "parsear_lineas U cs (antes @ linea # despues) f
      = procesar_linea U (parsear_lineas U cs antes) linea f"
    using assms(2) by (simp add: parsear_lineas_append parsear_lineas_untouched)
  also have "\<dots> = strip (snd (split_colon linea))"
    using assms(1) by (simp add: procesar_linea_campo)
  finally show ?thesis .
qed

lemma clave_inj: "clave f = clave g \<Longrightarrow> f = g"
  by (cases f; cases g) (simp_all add: u_def)

lemma dict_update_clave: "dict_update d cs (clave f) = Some (cs f)"
  by (cases f) (simp_all add: dict_update_def todos_los_campos_def u_def)

lemma dict_update_other:
  assumes "\<forall>f. k \<noteq> clave f"
  shows "dict_update d cs k = d k"
proof -
  have "k \<noteq> clave Empresa" "k \<noteq> clave Giro" "k \<noteq> clave Rut" "k \<noteq> clave Contacto"
    "k \<noteq> clave Correo" "k \<noteq> clave Telefono" "k \<noteq> clave Num_parte" "k \<noteq> clave Marca"
    "k \<noteq> clave Cantidad" "k \<noteq> clave Direccion_entrega"
    using assms by blast+
  then show ?thesis
    by (simp add: dict_update_def todos_los_campos_def)
qed

lemma data_cotizacion:
  "data (snd (manejar_flujo_cotizacion_bloque U s t))
     = dict_update (data s) (parsear_lineas U campos_en_blanco (splitlines t))"
  by (simp add: manejar_flujo_cotizacion_bloque_def Let_def)

text \<open>
  A line assigns the first field, in the order of the form, that its normalized label
  matches in the sense of \<open>coincide\<close>.
\<close>

lemma campo_de_linea_find:
  "campo_de_linea U linea =
     (if \<not> py_in (u '':'') linea then None
      else find (coincide (normalizar_texto U (Some (fst (split_colon linea))))) todos_los_campos)"
  by (simp add: campo_de_linea_def campo_de_etiqueta_find)

text \<open>
  C8, as amended. When several lines of the form are assigned to the same field, the
  field has the value of the last of them: for a line that is assigned to \<open>f\<close> and is
  followed by no line assigned to \<open>f\<close>, whatever comes before, the parsed value of \<open>f\<close>,
  and the value stored in the data of the session, is the trimmed value of that line.
  A line is assigned to the first field that its label matches, so a later line whose
  label also matches an earlier field of the form does not count for \<open>f\<close>.
\<close>

theorem last_line_wins:
  assumes "splitlines message_text = antes @ linea # despues"
    and "campo_de_linea U linea = Some f"
    and "\<forall>l\<in>set despues. campo_de_linea U l \<noteq> Some f"
  shows "parsear_lineas U campos_en_blanco (splitlines message_text) f
           = strip (snd (split_colon linea))
    \<and> data (snd (manejar_flujo_cotizacion_bloque U s message_text)) (clave f)
           = Some (strip (snd (split_colon linea)))"
  using parsear_lineas_last [OF assms(2,3), of campos_en_blanco antes]
  by (simp add: assms(1) data_cotizacion dict_update_clave)

text \<open>
  C10. In the state \<^verbatim>\<open>cotizacion_bloque\<close> a message writes all ten keys of the form into
  the data of the session, each with the value just parsed, and leaves the other keys
  alone; a field that no line of the message assigns is written as the empty string.
  The key \<^verbatim>\<open>rut\<close> is shared with the postventa flow: a form without a line for the tax
  id replaces whatever \<^verbatim>\<open>rut\<close> held by the empty string, and an answer in the state
  \<^verbatim>\<open>postventa_rut\<close> replaces it by the text of the answer.
\<close>

theorem cotizacion_overwrites_data:
  "(state s = u ''cotizacion_bloque'' \<longrightarrow>
      (\<forall>f. data (snd (manejar_mensaje U s t)) (clave f)
              = Some (parsear_lineas U campos_en_blanco (splitlines t) f))
      \<and> (\<forall>f. (\<forall>l\<in>set (splitlines t). campo_de_linea U l \<noteq> Some f) \<longrightarrow>
              data (snd (manejar_mensaje U s t)) (clave f) = Some [])
      \<and> (\<forall>k. (\<forall>f. k \<noteq> clave f) \<longrightarrow> data (snd (manejar_mensaje U s t)) k = data s k)
      \<and> ((\<forall>l\<in>set (splitlines t). campo_de_linea U l \<noteq> Some Rut) \<longrightarrow>
              data (snd (manejar_mensaje U s t)) (u ''rut'') = Some []))
   \<and> (state s = u ''postventa_rut'' \<longrightarrow>
        data (snd (manejar_mensaje U s t)) (u ''rut'') = Some t)"
proof (intro conjI impI allI)
  fix f
  assume st: "state s = u ''cotizacion_bloque''"
  then have m: "manejar_mensaje U s t = manejar_flujo_cotizacion_bloque U s t"
    by (simp add: manejar_mensaje_def Let_def u_def)
  show "data (snd (manejar_mensaje U s t)) (clave f)
          = Some (parsear_lineas U campos_en_blanco (splitlines t) f)"
    by (simp add: m data_cotizacion dict_update_clave)
  {
    assume "\<forall>l\<in>set (splitlines t). campo_de_linea U l \<noteq> Some f"
    then show "data (snd (manejar_mensaje U s t)) (clave f) = Some []"
      by (simp add: m data_cotizacion dict_update_clave parsear_lineas_untouched
          campos_en_blanco_def)
  }
next
  fix k
  assume st: "state s = u ''cotizacion_bloque''" and k: "\<forall>f. k \<noteq> clave f"
  from st have m: "manejar_mensaje U s t = manejar_flujo_cotizacion_bloque U s t"
    by (simp add: manejar_mensaje_def Let_def u_def)
  from k show "data (snd (manejar_mensaje U s t)) k = data s k"
    by (simp add: m data_cotizacion dict_update_other)
next
  assume st: "state s = u ''cotizacion_bloque''"
    and r: "\<forall>l\<in>set (splitlines t). campo_de_linea U l \<noteq> Some Rut"
  from st have m: "manejar_mensaje U s t = manejar_flujo_cotizacion_bloque U s t"
    by (simp add: manejar_mensaje_def Let_def u_def)
  have "dict_update (data s) (parsear_lineas U campos_en_blanco (splitlines t)) (clave Rut)
      = Some (parsear_lineas U campos_en_blanco (splitlines t) Rut)"
    by (rule dict_update_clave)
  also have "parsear_lineas U campos_en_blanco (splitlines t) Rut = campos_en_blanco Rut"
    using r by (rule parsear_lineas_untouched)
  finally have "data (snd (manejar_mensaje U s t)) (clave Rut) = Some []"
    by (simp add: m data_cotizacion campos_en_blanco_def)
  then show "data (snd (manejar_mensaje U s t)) (u ''rut'') = Some []"
    by simp
next
  assume "state s = u ''postventa_rut''"
  then show "data (snd (manejar_mensaje U s t)) (u ''rut'') = Some t"
    by (simp add: manejar_mensaje_postventa) (simp add: manejar_flujo_postventa_def Let_def u_def)
qed

text \<open>
  C2, as stated, fails. The label of \<^verbatim>\<open>Correo de contacto: a@b.cl\<close> contains the keyword
  \<^verbatim>\<open>correo\<close> of the email field, but the branch for \<^verbatim>\<open>contacto\<close> comes first: the value
  goes to the contact field and the email stays blank. The label of
  \<^verbatim>\<open>RUT cliente: 1-9\<close> contains \<^verbatim>\<open>rut\<close>, but the tax id is matched by equality: the
  line is dropped.
\<close>

theorem keyword_not_assigned:
  "py_in (u '':'') (u ''Correo de contacto: a@b.cl'')
   \<and> py_in (u ''correo'')
        (normalizar_texto ucd (Some (fst (split_colon (u ''Correo de contacto: a@b.cl'')))))
   \<and> strip (snd (split_colon (u ''Correo de contacto: a@b.cl''))) = u ''a@b.cl''
   \<and> procesar_linea ucd campos_en_blanco (u ''Correo de contacto: a@b.cl'') Correo = u ''''
   \<and> procesar_linea ucd campos_en_blanco (u ''Correo de contacto: a@b.cl'') Contacto = u ''a@b.cl''
   \<and> py_in (u '':'') (u ''RUT cliente: 1-9'')
   \<and> py_in (u ''rut'') (normalizar_texto ucd (Some (fst (split_colon (u ''RUT cliente: 1-9'')))))
   \<and> strip (snd (split_colon (u ''RUT cliente: 1-9''))) = u ''1-9''
   \<and> procesar_linea ucd campos_en_blanco (u ''RUT cliente: 1-9'') Rut = u ''''"
proof -
  have a: "py_in (u '':'') (u ''Correo de contacto: a@b.cl'')"
    by (simp add: u_def)
  have b: "normalizar_texto ucd (Some (fst (split_colon (u ''Correo de contacto: a@b.cl''))))
      = u ''correo de contacto''"
    by (simp add: split_colon_def ucd_eval)
  have c: "strip (snd (split_colon (u ''Correo de contacto: a@b.cl''))) = u ''a@b.cl''"
    by (simp add: split_colon_def u_def strip_def is_space_def)
  have d: "campo_de_linea ucd (u ''Correo de contacto: a@b.cl'') = Some Contacto"
    unfolding campo_de_linea_def b by (simp add: campo_de_etiqueta_def u_def)
  have e: "py_in (u '':'') (u ''RUT cliente: 1-9'')"
    by (simp add: u_def)
  have f: "normalizar_texto ucd (Some (fst (split_colon (u ''RUT cliente: 1-9'')))) = u ''rut cliente''"
    by (simp add: split_colon_def ucd_eval)
  have g: "strip (snd (split_colon (u ''RUT cliente: 1-9''))) = u ''1-9''"
    by (simp add: split_colon_def u_def strip_def is_space_def)
  have h: "campo_de_linea ucd (u ''RUT cliente: 1-9'') = None"
    unfolding campo_de_linea_def f by (simp add: campo_de_etiqueta_def u_def)
  have i: "py_in (u ''correo'') (u ''correo de contacto'')" "py_in (u ''rut'') (u ''rut cliente'')"
    by (simp_all add: u_def)
  show ?thesis
    unfolding procesar_linea_campo d h b f c g
    using a e i by (simp add: campos_en_blanco_def) (simp add: u_def)
qed

theorem procesar_linea_first_match_witness:
  "58 \<notin> set (u ''hola'')
   \<and> procesar_linea ucd campos_en_blanco (u ''hola'') = campos_en_blanco
   \<and> u ''RUT: 1-9'' = u ''RUT'' @ 58 # u '' 1-9''
   \<and> 58 \<notin> set (u ''RUT'')
   \<and> procesar_linea ucd campos_en_blanco (u ''RUT: 1-9'') = campos_en_blanco(Rut := u ''1-9'')"
proof -
  have a: "58 \<notin> set (u ''hola'')"
    by (simp add: u_def)
  have b: "u ''RUT: 1-9'' = u ''RUT'' @ 58 # u '' 1-9'' \<and> 58 \<notin> set (u ''RUT'')"
    by (simp add: u_def)
  have n: "normalizar_texto ucd (Some (u ''RUT'')) = u ''rut''"
    by (simp add: ucd_eval)
  have f: "find (coincide (u ''rut'')) todos_los_campos = Some Rut"
    by (simp add: todos_los_campos_def coincide_def u_def)
  have s: "strip (u '' 1-9'') = u ''1-9''"
    by (simp add: u_def strip_def is_space_def)
  from procesar_linea_first_match [where linea = "u ''hola''" and U = ucd and cs = campos_en_blanco]
    procesar_linea_first_match [where linea = "u ''RUT: 1-9''" and etiqueta = "u ''RUT''"
      and valor = "u '' 1-9''" and U = ucd and cs = campos_en_blanco]
    a b
  show ?thesis
    by (simp add: n f s)
qed

lemma campo_marca_b: "campo_de_linea ucd (u ''Marca: B'') = Some Marca"
proof -
  have "normalizar_texto ucd (Some (fst (split_colon (u ''Marca: B'')))) = u ''marca''"
    by (simp add: split_colon_def ucd_eval)
  then show ?thesis
    unfolding campo_de_linea_def by (simp add: campo_de_etiqueta_def u_def)
qed

lemma campo_giro_x: "campo_de_linea ucd (u ''Giro: x'') = Some Giro"
proof -
  have "normalizar_texto ucd (Some (fst (split_colon (u ''Giro: x'')))) = u ''giro''"
    by (simp add: split_colon_def ucd_eval)
  then show ?thesis
    unfolding campo_de_linea_def by (simp add: campo_de_etiqueta_def u_def)
qed

lemma splitlines_tres:
  "splitlines (u ''Marca: A'' @ [10] @ u ''Marca: B'' @ [10] @ u ''Giro: x'')
     = [u ''Marca: A''] @ u ''Marca: B'' # [u ''Giro: x'']"
  by (simp add: splitlines_def u_def is_linebreak_def)

theorem last_line_wins_witness:
  "splitlines (u ''Marca: A'' @ [10] @ u ''Marca: B'' @ [10] @ u ''Giro: x'')
     = [u ''Marca: A''] @ u ''Marca: B'' # [u ''Giro: x'']
   \<and> campo_de_linea ucd (u ''Marca: B'') = Some Marca
   \<and> campo_de_linea ucd (u ''Giro: x'') = Some Giro
   \<and> parsear_lineas ucd campos_en_blanco
        (splitlines (u ''Marca: A'' @ [10] @ u ''Marca: B'' @ [10] @ u ''Giro: x'')) Marca = u ''B''
   \<and> data (snd (manejar_flujo_cotizacion_bloque ucd
        \<lparr>state = u ''cotizacion_bloque'', data = Map.empty\<rparr>
        (u ''Marca: A'' @ [10] @ u ''Marca: B'' @ [10] @ u ''Giro: x''))) (u ''marca'') = Some (u ''B'')"
proof -
  have d: "\<forall>l\<in>set [u ''Giro: x'']. campo_de_linea ucd l \<noteq> Some Marca"
    by (simp add: campo_giro_x)
  have v: "strip (snd (split_colon (u ''Marca: B''))) = u ''B''"
    by (simp add: split_colon_def u_def strip_def is_space_def)
  from last_line_wins [OF splitlines_tres campo_marca_b d,
      of "\<lparr>state = u ''cotizacion_bloque'', data = Map.empty\<rparr>"]
    splitlines_tres campo_marca_b campo_giro_x
  show ?thesis
    by (simp add: v)
qed

text \<open>
  C8, as stated, fails. In the form \<^verbatim>\<open>Correo: a\<close>, \<^verbatim>\<open>Correo de contacto: b\<close> the labels of
  both lines match the email field: each contains its keyword \<^verbatim>\<open>correo\<close>. The second
  line is the last of the two, but the branch for \<^verbatim>\<open>contacto\<close> comes first in the chain
  and takes it: the email keeps the value \<^verbatim>\<open>a\<close> of the first line.
\<close>

theorem later_matching_line_ignored:
  "splitlines (u ''Correo: a'' @ [10] @ u ''Correo de contacto: b'')
     = [u ''Correo: a'', u ''Correo de contacto: b'']
   \<and> coincide (normalizar_texto ucd (Some (fst (split_colon (u ''Correo: a''))))) Correo
   \<and> coincide (normalizar_texto ucd (Some (fst (split_colon (u ''Correo de contacto: b''))))) Correo
   \<and> strip (snd (split_colon (u ''Correo de contacto: b''))) = u ''b''
   \<and> parsear_lineas ucd campos_en_blanco
        (splitlines (u ''Correo: a'' @ [10] @ u ''Correo de contacto: b'')) Correo = u ''a''
   \<and> parsear_lineas ucd campos_en_blanco
        (splitlines (u ''Correo: a'' @ [10] @ u ''Correo de contacto: b'')) Contacto = u ''b''
   \<and> data (snd (manejar_mensaje ucd (sesion_nueva\<lparr>state := u ''cotizacion_bloque''\<rparr>)
        (u ''Correo: a'' @ [10] @ u ''Correo de contacto: b''))) (u ''correo'') = Some (u ''a'')"
proof -
  let ?t = "u ''Correo: a'' @ [10] @ u ''Correo de contacto: b''"
  have sl: "splitlines ?t = [u ''Correo: a'', u ''Correo de contacto: b'']"
    by (simp add: splitlines_def u_def is_linebreak_def)
  have n1: "normalizar_texto ucd (Some (fst (split_colon (u ''Correo: a'')))) = u ''correo''"
    by (simp add: split_colon_def ucd_eval)
  have n2: "normalizar_texto ucd (Some (fst (split_colon (u ''Correo de contacto: b''))))
      = u ''correo de contacto''"
    by (simp add: split_colon_def ucd_eval)
  have c1: "coincide (u ''correo'') Correo"
    by (simp add: coincide_def u_def)
  have c2: "coincide (u ''correo de contacto'') Correo"
    by (simp add: coincide_def u_def)
  have v1: "strip (snd (split_colon (u ''Correo: a''))) = u ''a''"
    by (simp add: split_colon_def u_def strip_def is_space_def)
  have v2: "strip (snd (split_colon (u ''Correo de contacto: b''))) = u ''b''"
    by (simp add: split_colon_def u_def strip_def is_space_def)
  have f1: "campo_de_linea ucd (u ''Correo: a'') = Some Correo"
    unfolding campo_de_linea_def n1 by (simp add: campo_de_etiqueta_def u_def)
  have f2: "campo_de_linea ucd (u ''Correo de contacto: b'') = Some Contacto"
    unfolding campo_de_linea_def n2 by (simp add: campo_de_etiqueta_def u_def)
  have p: "parsear_lineas ucd campos_en_blanco (splitlines ?t)
      = (campos_en_blanco(Correo := u ''a''))(Contacto := u ''b'')"
    unfolding sl by (simp add: procesar_linea_campo f1 f2 v1 v2)
  have pc: "parsear_lineas ucd campos_en_blanco (splitlines ?t) Correo = u ''a''"
    and pk: "parsear_lineas ucd campos_en_blanco (splitlines ?t) Contacto = u ''b''"
    unfolding p by simp_all
  have m: "manejar_mensaje ucd (sesion_nueva\<lparr>state := u ''cotizacion_bloque''\<rparr>) ?t
      = manejar_flujo_cotizacion_bloque ucd (sesion_nueva\<lparr>state := u ''cotizacion_bloque''\<rparr>) ?t"
    by (simp add: manejar_mensaje_def Let_def u_def)
  have "dict_update (data (sesion_nueva\<lparr>state := u ''cotizacion_bloque''\<rparr>))
      (parsear_lineas ucd campos_en_blanco (splitlines ?t)) (clave Correo)
      = Some (parsear_lineas ucd campos_en_blanco (splitlines ?t) Correo)"
    by (rule dict_update_clave)
  then have d: "data (snd (manejar_mensaje ucd (sesion_nueva\<lparr>state := u ''cotizacion_bloque''\<rparr>) ?t))
      (u ''correo'') = Some (u ''a'')"
    unfolding m data_cotizacion pc by simp
  from sl c1 c2 v2 pc pk d show ?thesis
    unfolding n1 n2 by (intro conjI)
qed

lemma nombre_no_clave: "\<forall>f. u ''nombre'' \<noteq> clave f"
proof
  fix f show "u ''nombre'' \<noteq> clave f"
    by (cases f) (simp_all add: u_def)
qed

theorem cotizacion_overwrites_data_witness:
  "state \<lparr>state = u ''cotizacion_bloque'', data = [u ''rut'' \<mapsto> u ''1-9'', u ''nombre'' \<mapsto> u ''Ana'']\<rparr>
     = u ''cotizacion_bloque''
   \<and> splitlines (u ''Marca: B'') = [u ''Marca: B'']
   \<and> campo_de_linea ucd (u ''Marca: B'') = Some Marca
   \<and> (\<forall>f. u ''nombre'' \<noteq> clave f)
   \<and> data (snd (manejar_mensaje ucd
        \<lparr>state = u ''cotizacion_bloque'', data = [u ''rut'' \<mapsto> u ''1-9'', u ''nombre'' \<mapsto> u ''Ana'']\<rparr>
        (u ''Marca: B''))) (u ''rut'') = Some []
   \<and> data (snd (manejar_mensaje ucd
        \<lparr>state = u ''cotizacion_bloque'', data = [u ''rut'' \<mapsto> u ''1-9'', u ''nombre'' \<mapsto> u ''Ana'']\<rparr>
        (u ''Marca: B''))) (u ''nombre'') = Some (u ''Ana'')
   \<and> data (snd (manejar_mensaje ucd
        \<lparr>state = u ''postventa_rut'', data = [u ''rut'' \<mapsto> u ''1-9'']\<rparr>
        (u ''22.333.444-5''))) (u ''rut'') = Some (u ''22.333.444-5'')"
proof -
  let ?s = "\<lparr>state = u ''cotizacion_bloque'', data = [u ''rut'' \<mapsto> u ''1-9'', u ''nombre'' \<mapsto> u ''Ana'']\<rparr>"
  let ?p = "\<lparr>state = u ''postventa_rut'', data = [u ''rut'' \<mapsto> u ''1-9'']\<rparr>"
  have sl: "splitlines (u ''Marca: B'') = [u ''Marca: B'']"
    by (simp add: splitlines_def u_def is_linebreak_def)
  have r: "\<forall>l\<in>set (splitlines (u ''Marca: B'')). campo_de_linea ucd l \<noteq> Some Rut"
    by (simp add: sl campo_marca_b)
  have a: "state ?s = u ''cotizacion_bloque''" "state ?p = u ''postventa_rut''"
    by simp_all
  note t1 = cotizacion_overwrites_data [of ?s ucd "u ''Marca: B''"]
  note t2 = cotizacion_overwrites_data [of ?p ucd "u ''22.333.444-5''"]
  from t1 a(1) r have c1: "data (snd (manejar_mensaje ucd ?s (u ''Marca: B''))) (u ''rut'') = Some []"
    by blast
  from t1 a(1) nombre_no_clave
  have "data (snd (manejar_mensaje ucd ?s (u ''Marca: B''))) (u ''nombre'') = data ?s (u ''nombre'')"
    by blast
  then have c2: "data (snd (manejar_mensaje ucd ?s (u ''Marca: B''))) (u ''nombre'') = Some (u ''Ana'')"
    by simp
  from t2 a(2) have c3: "data (snd (manejar_mensaje ucd ?p (u ''22.333.444-5''))) (u ''rut'')
      = Some (u ''22.333.444-5'')"
    by blast
  from a(1) sl campo_marca_b nombre_no_clave c1 c2 c3 show ?thesis
    by blast
qed


section \<open>The normalizer\<close>

subsection \<open>strip\<close>

lemma set_strip: "set (strip s) \<subseteq> set s"
proof -
  have "set (dropWhile is_space (rev (dropWhile is_space s))) \<subseteq> set (rev (dropWhile is_space s))"
    by (rule set_dropWhileD [THEN subsetI])
  also have "\<dots> \<subseteq> set s"
    by (auto dest: set_dropWhileD)
  finally show ?thesis
    by (simp add: strip_def)
qed

lemma last_dropWhile: "dropWhile P xs \<noteq> [] \<Longrightarrow> last (dropWhile P xs) = last xs"
  by (induction xs) (auto split: if_splits)

lemma strip_strip: "strip (strip s) = strip s"
proof -
  let ?a = "dropWhile is_space s"
  let ?b = "dropWhile is_space (rev ?a)"
  have "dropWhile is_space (rev ?b) = rev ?b"
  proof (cases "?b = []")
    case True
    show ?thesis unfolding True by simp
  next
    case False
    then have a: "?a \<noteq> []" by (metis dropWhile.simps(1) rev.simps(1))
    from False have "last ?b = last (rev ?a)" by (rule last_dropWhile)
    also have "\<dots> = hd ?a" using a by (simp add: last_rev)
    finally have "hd (rev ?b) = hd ?a" using False by (simp add: hd_rev)
    moreover have "\<not> is_space (hd ?a)" using a by (rule hd_dropWhile)
    ultimately show ?thesis
      using False by (simp add: dropWhile_eq_self_iff)
  qed
  then show ?thesis
    by (simp add: strip_def)
qed

subsection \<open>The canonical order\<close>

lemma filter_bubble:
  "(combining c \<noteq> 0 \<Longrightarrow> \<not> Q c) \<Longrightarrow> filter Q (bubble c acc) = filter Q (c # acc)"
  by (induction acc) auto

lemma filter_foldl_bubble:
  "\<forall>x\<in>set xs. combining x \<noteq> 0 \<longrightarrow> \<not> Q x \<Longrightarrow>
   filter Q (foldl (\<lambda>acc c. bubble c acc) acc xs) = filter Q (rev xs @ acc)"
proof (induction xs arbitrary: acc)
  case Nil
  then show ?case by simp
next
  case (Cons x xs)
  then have "filter Q (bubble x acc) = filter Q (x # acc)"
    by (intro filter_bubble) simp
  with Cons show ?case by simp
qed

lemma filter_canonical_order:
  "\<forall>x\<in>set xs. combining x \<noteq> 0 \<longrightarrow> \<not> Q x \<Longrightarrow>
   filter Q (canonical_order xs) = filter Q xs"
  by (simp add: canonical_order_def filter_foldl_bubble flip: rev_filter)

lemma foldl_bubble_starters:
  "\<forall>x\<in>set xs. combining x = 0 \<Longrightarrow> foldl (\<lambda>acc c. bubble c acc) acc xs = rev xs @ acc"
proof (induction xs arbitrary: acc)
  case Nil
  then show ?case by simp
next
  case (Cons x xs)
  then have "bubble x acc = x # acc"
    by (cases acc) simp_all
  with Cons show ?case by simp
qed

lemma canonical_order_starters:
  "\<forall>x\<in>set xs. combining x = 0 \<Longrightarrow> canonical_order xs = xs"
  by (simp add: canonical_order_def foldl_bubble_starters)

subsection \<open>The entries of the tables\<close>

lemma lower_cp_latin1: "c < 256 \<Longrightarrow> lower_cp c < 256 \<and> lower_cp (lower_cp c) = lower_cp c"
  by (auto simp: lower_cp_def)

lemma table_keys: "list_all (\<lambda>(k, d). 192 \<le> k \<and> k < 256) decomposition_table"
  by (simp add: decomposition_table_def)

lemma decomposition_small: "c < 192 \<Longrightarrow> decomposition c = [c]"
proof -
  assume c: "c < 192"
  have "map_of decomposition_table c = None"
  proof (cases "map_of decomposition_table c")
    case None
    then show ?thesis .
  next
    case (Some d)
    then have "(c, d) \<in> set decomposition_table" by (rule map_of_SomeD)
    with table_keys have "192 \<le> c" by (auto simp: list_all_iff)
    with c show ?thesis by simp
  qed
  then show ?thesis by (simp add: decomposition_def)
qed

lemma plain_small: "c < 192 \<Longrightarrow> lower_cp c = c \<Longrightarrow> plain_cp c"
  by (simp add: plain_cp_def decomposition_small is_Mn_def combining_def)

lemma table_entries:
  "list_all (\<lambda>(k, d). lower_cp k = k \<longrightarrow>
      (\<exists>b m. d = [b, m] \<and> b < 192 \<and> lower_cp b = b \<and> is_Mn m)) decomposition_table"
  by (simp add: decomposition_table_def lower_cp_def is_Mn_def)

lemma table_marks:
  "list_all (\<lambda>(k, d). \<forall>x\<in>set d. combining x \<noteq> 0 \<longrightarrow> is_Mn x) decomposition_table"
  by (simp add: decomposition_table_def combining_def is_Mn_def)

lemma decomposition_marks:
  assumes "c < 256" and "x \<in> set (decomposition c)" and "combining x \<noteq> 0"
  shows "is_Mn x"
proof (cases "map_of decomposition_table c")
  case None
  with assms(2) have "x = c" by (simp add: decomposition_def)
  with assms(1,3) show ?thesis by (simp add: combining_def split: if_splits)
next
  case (Some d)
  then have "(c, d) \<in> set decomposition_table" by (rule map_of_SomeD)
  with table_marks have "\<forall>x\<in>set d. combining x \<noteq> 0 \<longrightarrow> is_Mn x"
    by (auto simp: list_all_iff)
  with Some assms(2,3) show ?thesis by (simp add: decomposition_def)
qed

lemma decomposition_plain:
  assumes "c < 256" and "lower_cp c = c"
    and "x \<in> set (filter (\<lambda>c. \<not> is_Mn c) (decomposition c))"
  shows "plain_cp x"
proof (cases "map_of decomposition_table c")
  case None
  with assms(3) have x: "x = c" and d: "decomposition c = [c]"
    by (simp_all add: decomposition_def split: if_splits)
  from assms(1) have "\<not> is_Mn c" "combining c = 0"
    by (simp_all add: is_Mn_def combining_def)
  with assms(1,2) x d show ?thesis by (simp add: plain_cp_def)
next
  case (Some d)
  then have "(c, d) \<in> set decomposition_table" by (rule map_of_SomeD)
  with table_entries assms(2) obtain b m
    where "d = [b, m]" "b < 192" "lower_cp b = b" "is_Mn m"
    by (auto simp: list_all_iff)
  with Some assms(3) have "x = b"
    by (simp add: decomposition_def split: if_splits)
  with \<open>b < 192\<close> \<open>lower_cp b = b\<close> show ?thesis by (simp add: plain_small)
qed

subsection \<open>The normalizer on Latin-1\<close>

lemma nfd_plain: "\<forall>x\<in>set t. plain_cp x \<Longrightarrow> nfd t = t"
proof -
  assume p: "\<forall>x\<in>set t. plain_cp x"
  then have "concat (map decomposition t) = t"
    by (induction t) (simp_all add: plain_cp_def)
  moreover from p have "canonical_order t = t"
    by (intro canonical_order_starters) (simp add: plain_cp_def)
  ultimately show ?thesis by (simp add: nfd_def)
qed

lemma pass_plain:
  assumes "\<forall>x\<in>set t. plain_cp x"
  shows "filter (\<lambda>c. \<not> is_Mn c) (nfd (map lower_cp t)) = t"
proof -
  from assms have l: "map lower_cp t = t"
    by (induction t) (simp_all add: plain_cp_def)
  from assms have "filter (\<lambda>c. \<not> is_Mn c) t = t"
    by (induction t) (simp_all add: plain_cp_def)
  with assms l show ?thesis by (simp add: nfd_plain)
qed

lemma pass_latin1:
  assumes "\<forall>c\<in>set s. c < 256"
  shows "\<forall>x\<in>set (filter (\<lambda>c. \<not> is_Mn c) (nfd (map lower_cp s))). plain_cp x"
proof -
  let ?xs = "concat (map decomposition (map lower_cp s))"
  have m: "\<forall>x\<in>set ?xs. combining x \<noteq> 0 \<longrightarrow> \<not> \<not> is_Mn x"
    using assms by (auto dest: decomposition_marks [rotated 1] simp: lower_cp_latin1)
  have "filter (\<lambda>c. \<not> is_Mn c) (nfd (map lower_cp s)) = filter (\<lambda>c. \<not> is_Mn c) ?xs"
    unfolding nfd_def using m by (rule filter_canonical_order)
  moreover have "\<forall>x\<in>set (filter (\<lambda>c. \<not> is_Mn c) ?xs). plain_cp x"
  proof
    fix x assume "x \<in> set (filter (\<lambda>c. \<not> is_Mn c) ?xs)"
    then obtain c where c: "c \<in> set s"
      and x: "x \<in> set (filter (\<lambda>c. \<not> is_Mn c) (decomposition (lower_cp c)))"
      by auto
    from c assms have "c < 256" by simp
    then have "lower_cp c < 256" "lower_cp (lower_cp c) = lower_cp c"
      by (simp_all add: lower_cp_latin1)
    then show "plain_cp x" using x by (rule decomposition_plain)
  qed
  ultimately show ?thesis by simp
qed

lemma normalizar_latin1_plain:
  assumes "\<forall>c\<in>set s. c < 256"
  shows "\<forall>x\<in>set (normalizar_texto ucd (Some s)). plain_cp x"
proof (cases "s = []")
  case True
  then show ?thesis by (simp add: normalizar_texto_def)
next
  case False
  let ?x = "filter (\<lambda>c. \<not> is_Mn c) (nfd (map lower_cp s))"
  have "set (strip ?x) \<subseteq> set ?x" by (rule set_strip)
  with pass_latin1 [OF assms] have "\<forall>x\<in>set (strip ?x). plain_cp x" by blast
  with False show ?thesis
    by (simp add: normalizar_texto_def ucd_def)
qed

lemma normalizar_plain_fixed:
  assumes "\<forall>x\<in>set t. plain_cp x" and "strip t = t"
  shows "normalizar_texto ucd (Some t) = t"
  using assms by (simp add: normalizar_texto_def ucd_def pass_plain)

lemma strip_Nil: "strip [] = []"
  by (simp add: strip_def)

lemma strip_normalizar: "strip (normalizar_texto U txt) = normalizar_texto U txt"
  by (simp add: normalizar_texto_def strip_strip strip_Nil split: option.splits)

lemma normalizar_no_Mn: "\<forall>c\<in>set (normalizar_texto U txt). \<not> category_Mn U c"
proof (cases "txt")
  case None
  then show ?thesis by (simp add: normalizar_texto_def)
next
  case (Some t)
  let ?x = "filter (\<lambda>c. \<not> category_Mn U c) (normalize_NFD U (str_lower U t))"
  have sub: "set (strip ?x) \<subseteq> set ?x" by (rule set_strip)
  have clean: "\<forall>c\<in>set (strip ?x). \<not> category_Mn U c"
  proof
    fix c assume "c \<in> set (strip ?x)"
    with sub have "c \<in> set ?x" by (rule subsetD)
    then show "\<not> category_Mn U c" by simp
  qed
  from Some have e: "normalizar_texto U txt = (if t = [] then [] else strip ?x)"
    by (simp add: normalizar_texto_def)
  show ?thesis
  proof (cases "t = []")
    case True
    with e have "normalizar_texto U txt = []" by simp
    then show ?thesis by simp
  next
    case False
    with e have "normalizar_texto U txt = strip ?x" by simp
    with clean show ?thesis by (simp only:)
  qed
qed

subsection \<open>The tables satisfy the laws\<close>

lemma length_bubble: "length (bubble c acc) = Suc (length acc)"
  by (induction acc) auto

lemma set_bubble: "set (bubble c acc) = insert c (set acc)"
  by (induction acc) auto

lemma set_foldl_bubble: "set (foldl (\<lambda>acc c. bubble c acc) acc xs) = set xs \<union> set acc"
  by (induction xs arbitrary: acc) (auto simp: set_bubble)

lemma length_foldl_bubble:
  "length (foldl (\<lambda>acc c. bubble c acc) acc xs) = length xs + length acc"
  by (induction xs arbitrary: acc) (simp_all add: length_bubble)

lemma set_canonical_order: "set (canonical_order xs) = set xs"
  by (simp add: canonical_order_def set_foldl_bubble)

lemma length_canonical_order: "length (canonical_order xs) = length xs"
  by (simp add: canonical_order_def length_foldl_bubble)

lemma canonical_order_single: "canonical_order xs = [c] \<Longrightarrow> xs = [c]"
proof -
  assume a: "canonical_order xs = [c]"
  then have "length xs = 1" "set xs = {c}"
    using length_canonical_order [of xs] set_canonical_order [of xs] by simp_all
  then show ?thesis
    by (cases xs) auto
qed

lemma set_nfd: "set (nfd s) = (\<Union>c\<in>set s. set (decomposition c))"
  by (simp add: nfd_def set_canonical_order)

lemma decomposition_outside: "c < 192 \<or> 256 \<le> c \<Longrightarrow> decomposition c = [c]"
proof -
  assume c: "c < 192 \<or> 256 \<le> c"
  have "map_of decomposition_table c = None"
  proof (cases "map_of decomposition_table c")
    case None
    then show ?thesis .
  next
    case (Some d)
    then have "(c, d) \<in> set decomposition_table" by (rule map_of_SomeD)
    with table_keys have "192 \<le> c \<and> c < 256" by (auto simp: list_all_iff)
    with c show ?thesis by simp
  qed
  then show ?thesis by (simp add: decomposition_def)
qed

lemma table_values:
  "list_all (\<lambda>(k, d). \<forall>x\<in>set d. x < 192 \<or> 256 \<le> x) decomposition_table"
  by (simp add: decomposition_table_def)

lemma table_lower:
  "list_all (\<lambda>(k, d). lower_cp k = k \<longrightarrow> (\<forall>x\<in>set d. lower_cp x = x)) decomposition_table"
  by (simp add: decomposition_table_def lower_cp_def)

lemma decomposition_fixed:
  assumes "x \<in> set (decomposition c)"
  shows "decomposition x = [x]"
proof (cases "map_of decomposition_table c")
  case None
  with assms show ?thesis by (simp add: decomposition_def)
next
  case (Some d)
  then have "(c, d) \<in> set decomposition_table" by (rule map_of_SomeD)
  with table_values have "\<forall>x\<in>set d. x < 192 \<or> 256 \<le> x"
    by (auto simp: list_all_iff)
  with Some assms have "x < 192 \<or> 256 \<le> x" by (simp add: decomposition_def)
  then show ?thesis by (rule decomposition_outside)
qed

lemma decomposition_lower:
  assumes "lower_cp c = c" and "x \<in> set (decomposition c)"
  shows "lower_cp x = x"
proof (cases "map_of decomposition_table c")
  case None
  with assms show ?thesis by (simp add: decomposition_def)
next
  case (Some d)
  then have "(c, d) \<in> set decomposition_table" by (rule map_of_SomeD)
  with table_lower assms(1) have "\<forall>x\<in>set d. lower_cp x = x"
    by (auto simp: list_all_iff)
  with Some assms(2) show ?thesis by (simp add: decomposition_def)
qed

lemma ucd_fields:
  "str_lower ucd = map lower_cp" "normalize_NFD ucd = nfd" "category_Mn ucd = is_Mn"
  "combining_class ucd = combining"
  by (simp_all add: ucd_def)

lemma lower_cp_idem: "lower_cp (lower_cp c) = lower_cp c"
  by (auto simp: lower_cp_def)

lemma lower_fixed_ucd: "lower_fixed ucd c \<longleftrightarrow> lower_cp c = c"
  by (simp add: lower_fixed_def ucd_fields)

lemma nfd_fixed_ucd: "nfd_fixed ucd c \<longleftrightarrow> decomposition c = [c]"
proof
  assume "nfd_fixed ucd c"
  then have "canonical_order (decomposition c) = [c]"
    by (simp add: nfd_fixed_def ucd_fields nfd_def)
  then show "decomposition c = [c]" by (rule canonical_order_single)
next
  assume "decomposition c = [c]"
  then show "nfd_fixed ucd c"
    by (simp add: nfd_fixed_def ucd_fields nfd_def canonical_order_def)
qed

lemma unicode_laws_ucd: "unicode_laws ucd"
proof -
  have l1: "\<And>s. list_all (lower_fixed ucd) (str_lower ucd s)"
    by (simp add: list_all_iff lower_fixed_ucd ucd_fields lower_cp_idem)
  have l2: "\<And>t. list_all (lower_fixed ucd) t \<Longrightarrow> str_lower ucd t = t"
    by (simp add: list_all_iff lower_fixed_ucd ucd_fields map_idI)
  have d1: "\<And>t. list_all (lower_fixed ucd) t \<Longrightarrow> list_all (lower_fixed ucd) (normalize_NFD ucd t)"
    by (auto simp: list_all_iff lower_fixed_ucd ucd_fields set_nfd intro: decomposition_lower)
  have d3: "\<And>s. list_all (nfd_fixed ucd) (normalize_NFD ucd s)"
    by (auto simp: list_all_iff nfd_fixed_ucd ucd_fields set_nfd intro: decomposition_fixed)
  have d2: "\<And>t. list_all (\<lambda>c. nfd_fixed ucd c \<and> combining_class ucd c = 0) t
      \<Longrightarrow> normalize_NFD ucd t = t"
  proof -
    fix t assume "list_all (\<lambda>c. nfd_fixed ucd c \<and> combining_class ucd c = 0) t"
    then have a: "\<forall>c\<in>set t. decomposition c = [c]" and b: "\<forall>c\<in>set t. combining c = 0"
      by (simp_all add: list_all_iff nfd_fixed_ucd ucd_fields)
    from a have "concat (map decomposition t) = t"
      by (induction t) simp_all
    moreover from b have "canonical_order t = t"
      by (rule canonical_order_starters)
    ultimately show "normalize_NFD ucd t = t"
      by (simp add: ucd_fields nfd_def)
  qed
  from l1 l2 d1 d3 d2 show ?thesis
    unfolding unicode_laws_def by blast
qed

subsection \<open>The normalizer under the laws\<close>

lemma set_normalizar:
  "set (normalizar_texto U txt) \<subseteq> (case txt of None \<Rightarrow> {} | Some t \<Rightarrow> set (normalize_NFD U (str_lower U t)))"
proof (cases "txt")
  case None
  then show ?thesis by (simp add: normalizar_texto_def)
next
  case (Some t)
  let ?x = "filter (\<lambda>c. \<not> category_Mn U c) (normalize_NFD U (str_lower U t))"
  have "set (strip ?x) \<subseteq> set ?x" by (rule set_strip)
  also have "\<dots> \<subseteq> set (normalize_NFD U (str_lower U t))" by (rule filter_is_subset)
  finally show ?thesis using Some by (simp add: normalizar_texto_def)
qed

lemma normalizar_lower:
  assumes "unicode_laws U"
  shows "str_lower U (normalizar_texto U txt) = normalizar_texto U txt"
proof -
  have f: "list_all (lower_fixed U) (normalizar_texto U txt)"
  proof (cases "txt")
    case None
    then show ?thesis by (simp add: normalizar_texto_def)
  next
    case (Some t)
    from assms have "list_all (lower_fixed U) (str_lower U t)"
      unfolding unicode_laws_def by blast
    with assms have "list_all (lower_fixed U) (normalize_NFD U (str_lower U t))"
      unfolding unicode_laws_def by blast
    moreover from Some set_normalizar [of U "txt"]
    have "set (normalizar_texto U txt) \<subseteq> set (normalize_NFD U (str_lower U t))" by simp
    ultimately show ?thesis
      unfolding list_all_iff by blast
  qed
  with assms show ?thesis
    unfolding unicode_laws_def by blast
qed

lemma normalizar_fixed:
  assumes "unicode_laws U" and "\<forall>c\<in>set (normalizar_texto U txt). combining_class U c = 0"
  shows "normalizar_texto U (Some (normalizar_texto U txt)) = normalizar_texto U txt"
proof -
  let ?n = "normalizar_texto U txt"
  have l: "str_lower U ?n = ?n"
    using assms(1) by (rule normalizar_lower)
  have "list_all (nfd_fixed U) ?n"
  proof (cases "txt")
    case None
    then show ?thesis by (simp add: normalizar_texto_def)
  next
    case (Some t)
    from assms(1) have "list_all (nfd_fixed U) (normalize_NFD U (str_lower U t))"
      unfolding unicode_laws_def by blast
    moreover from Some set_normalizar [of U "txt"]
    have "set ?n \<subseteq> set (normalize_NFD U (str_lower U t))" by simp
    ultimately show ?thesis
      unfolding list_all_iff by blast
  qed
  with assms(2) have "list_all (\<lambda>c. nfd_fixed U c \<and> combining_class U c = 0) ?n"
    unfolding list_all_iff by blast
  with assms(1) have d: "normalize_NFD U ?n = ?n"
    unfolding unicode_laws_def by blast
  have m: "filter (\<lambda>c. \<not> category_Mn U c) ?n = ?n"
    unfolding filter_id_conv by (rule normalizar_no_Mn)
  have s: "strip ?n = ?n"
    by (rule strip_normalizar)
  have "normalizar_texto U (Some ?n)
      = (if ?n = [] then [] else strip (filter (\<lambda>c. \<not> category_Mn U c) (normalize_NFD U (str_lower U ?n))))"
    by (simp only: normalizar_texto_def option.case)
  also have "\<dots> = (if ?n = [] then [] else ?n)"
    by (simp only: l d m s)
  also have "\<dots> = ?n"
    by (cases "?n = []") simp_all
  finally show ?thesis .
qed

text \<open>
  With the tables \<open>ucd\<close>, every text over Latin-1 (U+0000..U+00FF) is normalized to a
  text that \<^verbatim>\<open>lower\<close> and the normalizer leave as it is.
\<close>

lemma normalizar_latin1_fixed:
  assumes "\<forall>c\<in>set s. c < 256"
  shows "str_lower ucd (normalizar_texto ucd (Some s)) = normalizar_texto ucd (Some s)"
    and "normalizar_texto ucd (Some (normalizar_texto ucd (Some s)))
           = normalizar_texto ucd (Some s)"
proof -
  from assms have p: "\<forall>x\<in>set (normalizar_texto ucd (Some s)). plain_cp x"
    by (rule normalizar_latin1_plain)
  then have "map lower_cp (normalizar_texto ucd (Some s)) = normalizar_texto ucd (Some s)"
    by (intro map_idI) (simp add: plain_cp_def)
  then show "str_lower ucd (normalizar_texto ucd (Some s)) = normalizar_texto ucd (Some s)"
    by (simp add: ucd_def)
  from p strip_normalizar
  show "normalizar_texto ucd (Some (normalizar_texto ucd (Some s))) = normalizar_texto ucd (Some s)"
    by (rule normalizar_plain_fixed)
qed

text \<open>
  C7, as amended. For every text, \<^verbatim>\<open>None\<close> included, and every Unicode table: the output
  of the normalizer has no code point of category Mn, and the empty text and \<^verbatim>\<open>None\<close>
  give the empty text. With the tables \<open>ucd\<close>, \<^verbatim>\<open>Cotizaci\<close>U+00F3\<^verbatim>\<open>n\<close> gives
  \<^verbatim>\<open>cotizacion\<close>. For every table that satisfies the laws of the case mappings and of
  canonical decomposition, the output is in lower case (\<^verbatim>\<open>lower\<close> leaves it as it is),
  for every text; and the normalizer leaves the output as it is whenever the output
  has no code point of a combining class other than 0. After the filter such code
  points are marks that are not of category Mn, like U+1D165.
\<close>

theorem normalizar_texto_props:
  "(\<forall>c\<in>set (normalizar_texto U txt). \<not> category_Mn U c)
   \<and> normalizar_texto U None = []
   \<and> normalizar_texto U (Some []) = []
   \<and> normalizar_texto ucd (Some (u (''Cotizaci'' @ [CHR 0xF3] @ ''n''))) = u ''cotizacion''
   \<and> (unicode_laws U \<longrightarrow>
         str_lower U (normalizar_texto U txt) = normalizar_texto U txt
         \<and> ((\<forall>c\<in>set (normalizar_texto U txt). combining_class U c = 0) \<longrightarrow>
               normalizar_texto U (Some (normalizar_texto U txt)) = normalizar_texto U txt))"
proof (intro conjI impI)
  show "\<forall>c\<in>set (normalizar_texto U txt). \<not> category_Mn U c"
    by (rule normalizar_no_Mn)
  show "normalizar_texto U None = []" "normalizar_texto U (Some []) = []"
    by (simp_all add: normalizar_texto_def)
  show "normalizar_texto ucd (Some (u (''Cotizaci'' @ [CHR 0xF3] @ ''n''))) = u ''cotizacion''"
    by (simp add: ucd_eval)
next
  assume "unicode_laws U"
  then show "str_lower U (normalizar_texto U txt) = normalizar_texto U txt"
    by (rule normalizar_lower)
next
  assume "unicode_laws U" and "\<forall>c\<in>set (normalizar_texto U txt). combining_class U c = 0"
  then show "normalizar_texto U (Some (normalizar_texto U txt)) = normalizar_texto U txt"
    by (rule normalizar_fixed)
qed

text \<open>
  C7, as stated, fails: the normalizer is not idempotent on every text. In the text
  U+1D16D U+034F U+1D165 the two musical marks (category Mc, combining classes 226 and
  216) are separated by U+034F (category Mn, class 0), so NFD keeps their order; the
  filter removes U+034F; a second pass then finds the two marks side by side, and NFD
  puts the one of class 216 first. The first output has code points of a combining
  class other than 0, which is what the amended statement excludes.
\<close>

theorem normalizar_not_idempotent:
  "normalizar_texto ucd (Some [119149, 847, 119141]) = [119149, 119141]
   \<and> normalizar_texto ucd (Some (normalizar_texto ucd (Some [119149, 847, 119141])))
       = [119141, 119149]
   \<and> normalizar_texto ucd (Some (normalizar_texto ucd (Some [119149, 847, 119141])))
       \<noteq> normalizar_texto ucd (Some [119149, 847, 119141])"
proof -
  have a: "normalizar_texto ucd (Some [119149, 847, 119141]) = [119149, 119141]"
    by (simp add: ucd_eval)
  have b: "normalizar_texto ucd (Some [119149, 119141]) = [119141, 119149]"
    by (simp add: ucd_eval)
  show ?thesis
    unfolding a b by simp
qed

theorem normalizar_texto_props_witness:
  "unicode_laws ucd
   \<and> normalizar_texto ucd (Some (u ''COTIZACIO'' @ [769] @ u ''N '')) = u ''cotizacion''
   \<and> list_all (\<lambda>c. combining_class ucd c = 0) (u ''cotizacion'')
   \<and> list_all (\<lambda>c. \<not> category_Mn ucd c) (u ''cotizacion'')
   \<and> str_lower ucd (u ''cotizacion'') = u ''cotizacion''
   \<and> normalizar_texto ucd (Some (u ''cotizacion'')) = u ''cotizacion''"
proof -
  let ?s = "u ''COTIZACIO'' @ [769] @ u ''N ''"
  have n: "normalizar_texto ucd (Some ?s) = u ''cotizacion''"
    by (simp add: ucd_eval)
  have z: "\<forall>c\<in>set (normalizar_texto ucd (Some ?s)). combining_class ucd c = 0"
    unfolding n by (simp add: ucd_fields combining_def u_def)
  note t = normalizar_texto_props [of ucd "Some ?s"]
  from t have a: "\<forall>c\<in>set (normalizar_texto ucd (Some ?s)). \<not> category_Mn ucd c"
    by (rule conjunct1)
  from t unicode_laws_ucd z
  have b: "str_lower ucd (normalizar_texto ucd (Some ?s)) = normalizar_texto ucd (Some ?s)"
    and c: "normalizar_texto ucd (Some (normalizar_texto ucd (Some ?s)))
              = normalizar_texto ucd (Some ?s)"
    by blast+
  from z have z': "list_all (\<lambda>c. combining_class ucd c = 0) (u ''cotizacion'')"
    by (simp only: list_all_iff n)
  from a have a': "list_all (\<lambda>c. \<not> category_Mn ucd c) (u ''cotizacion'')"
    by (simp only: list_all_iff n)
  from unicode_laws_ucd n z' a' b [unfolded n] c [unfolded n] show ?thesis
    by (intro conjI)
qed

end
